theory Spec2Isabelle
  imports Complex_Main
begin

section \<open>Numeric arrays\<close>

text \<open>
  The two modules compute on numpy arrays of floats. Floats are modelled as the real
  numbers they approximate: every arithmetic step is exact, so a property that the code
  has "within floating tolerance" is stated here as an equation. A one-dimensional array
  is a list. A matrix whose columns are days (the power matrix, the daytime mask, the
  resampled surface) is the list of its columns, so \<open>data[:, col_ix]\<close> is
  \<open>data ! col_ix\<close> and \<open>data.shape[1]\<close> is \<open>length data\<close>. A matrix that the
  convex program works on (rows are declination buckets) is the list of its rows.
\<close>

type_synonym vec = "real list"
type_synonym colmat = "real list list"
type_synonym mat = "real list list"

datatype error =
  ValueError | IndexError | TypeError | AxisError | AttributeError | NameError
  | SolverError string

text \<open>\<open>np.linspace(0, 1, k)\<close>: \<open>k\<close> evenly spaced points, both ends included.\<close>

definition linspace01 :: "nat \<Rightarrow> vec" where
  "linspace01 k = map (\<lambda>i. if k = 1 then 0 else real i / real (k - 1)) [0..<k]"

text \<open>\<open>int(np.sum(msk))\<close> of a boolean array: the number of true entries.\<close>

definition count_true :: "bool list \<Rightarrow> nat" where
  "count_true msk = length (filter (\<lambda>b. b) msk)"

text \<open>
  \<open>y[msk]\<close> with a boolean array \<open>msk\<close>: the entries of \<open>y\<close> where \<open>msk\<close> is true, in
  order. numpy raises IndexError when the two lengths differ.
\<close>

definition masked :: "'a list \<Rightarrow> bool list \<Rightarrow> error + 'a list" where
  "masked y msk =
     (if length msk \<noteq> length y then Inl IndexError
      else Inr (map fst (filter snd (zip y msk))))"

section \<open>scipy.interpolate.interp1d, linear\<close>

text \<open>
  \<open>np.searchsorted(x, v)\<close> (side left) on a sorted array: the first index whose entry is
  not below \<open>v\<close>.
\<close>

definition searchsorted :: "vec \<Rightarrow> real \<Rightarrow> nat" where
  "searchsorted x v = length (takeWhile (\<lambda>a. a < v) x)"

text \<open>
  The linear interpolant at one point, as scipy's \<open>_call_linear\<close> computes it: the index
  found by searchsorted is clipped into \<open>1 .. len(x) - 1\<close>, and the line through the two
  neighbouring points is evaluated. Outside the range of \<open>x\<close> this is the extension of
  the first or last segment, which is what \<open>fill_value="extrapolate"\<close> returns.
\<close>

definition call_linear :: "vec \<Rightarrow> vec \<Rightarrow> real \<Rightarrow> real" where
  "call_linear x y x_new =
     (let idx = min (max (searchsorted x x_new) 1) (length x - 1);
          lo = idx - 1;
          hi = idx;
          slope = (y ! hi - y ! lo) / (x ! hi - x ! lo)
      in slope * (x_new - x ! lo) + y ! lo)"

text \<open>
  Constructing \<open>interp1d(x, y)\<close>: the lengths must agree and there must be at least two
  points (ValueError otherwise); the points are sorted by \<open>x\<close> with a stable sort
  (\<open>assume_sorted=False\<close>). The result is the sorted pair of arrays.
\<close>

definition interp1d :: "vec \<Rightarrow> vec \<Rightarrow> error + (vec \<times> vec)" where
  "interp1d x y =
     (if length x \<noteq> length y then Inl ValueError
      else if length x < 2 then Inl ValueError
      else let ps = sort_key fst (zip x y) in Inr (map fst ps, map snd ps))"

text \<open>
  Calling the interpolant on an array. Without extrapolation \<open>bounds_error\<close> is on: a
  point below the first or above the last \<open>x\<close> raises ValueError.
\<close>

definition interp_call :: "bool \<Rightarrow> vec \<times> vec \<Rightarrow> vec \<Rightarrow> error + vec" where
  "interp_call extrapolate f x_new =
     (case f of (x, y) \<Rightarrow>
        if \<not> extrapolate \<and> (\<exists>v \<in> set x_new. v < hd x \<or> last x < v) then Inl ValueError
        else Inr (map (call_linear x y) x_new))"

section \<open>shade.py: resampling\<close>

text \<open>
  The body of the loop of \<open>batch_process\<close> up to \<open>resampled_signal\<close>: the masked
  values of the day, placed on a uniform grid of as many points on [0, 1], are
  interpolated onto the uniform grid of \<open>N\<close> points.
\<close>

definition resampled_signal :: "vec \<Rightarrow> bool list \<Rightarrow> nat \<Rightarrow> error + vec" where
  "resampled_signal y msk N =
     (case masked y msk of
        Inl e \<Rightarrow> Inl e
      | Inr ym \<Rightarrow>
          (case interp1d (linspace01 (count_true msk)) ym of
             Inl e \<Rightarrow> Inl e
           | Inr interp_f \<Rightarrow> interp_call False interp_f (linspace01 N)))"

text \<open>
  One pass of the loop: \<open>energy\<close> is the sum of the whole column \<open>y\<close>; the column of
  the output is the resampled signal rescaled by \<open>energy / sum\<close> when the resampled
  signal has a positive sum, and zero otherwise.
\<close>

definition process_column :: "vec \<Rightarrow> bool list \<Rightarrow> nat \<Rightarrow> error + vec" where
  "process_column y msk N =
     (let energy = sum_list y in
      case resampled_signal y msk N of
        Inl e \<Rightarrow> Inl e
      | Inr rs \<Rightarrow>
          if sum_list rs > 0 then Inr (map (\<lambda>r. r * energy / sum_list rs) rs)
          else Inr (replicate N 0))"

text \<open>The loop over the columns, stopping at the first error.\<close>

fun batch_loop :: "colmat \<Rightarrow> bool list list \<Rightarrow> nat \<Rightarrow> nat list \<Rightarrow> error + colmat" where
  "batch_loop data dmask N [] = Inr []"
| "batch_loop data dmask N (col_ix # rest) =
     (if length dmask \<le> col_ix then Inl IndexError
      else case process_column (data ! col_ix) (dmask ! col_ix) N of
        Inl e \<Rightarrow> Inl e
      | Inr c \<Rightarrow>
          (case batch_loop data dmask N rest of
             Inl e \<Rightarrow> Inl e
           | Inr cs \<Rightarrow> Inr (c # cs)))"

definition batch_process :: "colmat \<Rightarrow> bool list list \<Rightarrow> nat \<Rightarrow> error + colmat" where
  "batch_process data dmask pwr = batch_loop data dmask (2 ^ pwr) [0..<length data]"

text \<open>
  \<open>output[msk, col_ix] = values\<close>: the values are written, in order, at the true
  positions of a column that is zero elsewhere.
\<close>

fun scatter :: "bool list \<Rightarrow> vec \<Rightarrow> vec" where
  "scatter [] vs = []"
| "scatter (True # ms) (v # vs) = v # scatter ms vs"
| "scatter (True # ms) [] = 0 # scatter ms []"
| "scatter (False # ms) vs = 0 # scatter ms vs"

text \<open>\<open>data.shape[0]\<close> of a matrix given by its columns.\<close>

definition shape0 :: "colmat \<Rightarrow> nat" where
  "shape0 data = (case data of [] \<Rightarrow> 0 | c # _ \<Rightarrow> length c)"

text \<open>
  One pass of the loop of \<open>undo_batch_process\<close>: the column of the resampled surface,
  on the uniform grid \<open>xs_old\<close>, is interpolated onto as many points as the day has
  daytime samples.
\<close>

definition undo_signal :: "vec \<Rightarrow> vec \<Rightarrow> bool list \<Rightarrow> error + vec" where
  "undo_signal xs_old c msk =
     (case interp1d xs_old c of
        Inl e \<Rightarrow> Inl e
      | Inr interp_f \<Rightarrow> interp_call False interp_f (linspace01 (count_true msk)))"

fun undo_loop :: "vec \<Rightarrow> colmat \<Rightarrow> bool list list \<Rightarrow> nat list \<Rightarrow> colmat \<Rightarrow> error + colmat" where
  "undo_loop xs_old data dmask [] output = Inr output"
| "undo_loop xs_old data dmask (col_ix # rest) output =
     (if length dmask \<le> col_ix then Inl IndexError
      else case undo_signal xs_old (data ! col_ix) (dmask ! col_ix) of
        Inl e \<Rightarrow> Inl e
      | Inr rs \<Rightarrow>
          undo_loop xs_old data dmask rest (output[col_ix := scatter (dmask ! col_ix) rs]))"

definition undo_batch_process :: "colmat \<Rightarrow> bool list list \<Rightarrow> error + colmat" where
  "undo_batch_process data dmask =
     undo_loop (linspace01 (shape0 data)) data dmask [0..<length data]
       (map (\<lambda>m. replicate (length m) 0) dmask)"

section \<open>shade.py: declination aggregation\<close>

text \<open>\<open>delta_cooper\<close>: the declination angle in degrees, by Cooper's formula.\<close>

definition deg2rad :: "real \<Rightarrow> real" where
  "deg2rad d = d * pi / 180"

definition delta_cooper :: "real \<Rightarrow> real" where
  "delta_cooper day_of_year = 23.45 * sin (deg2rad (360 * (284 + day_of_year) / 365))"

text \<open>\<open>np.round(x, 0)\<close> rounds to the nearest integer, a half to the even neighbour.\<close>

definition np_round :: "real \<Rightarrow> real" where
  "np_round x =
     (let f = \<lfloor>x\<rfloor>; r = x - of_int f
      in if r < 1 / 2 then of_int f
         else if 1 / 2 < r then of_int (f + 1)
         else if even f then of_int f else of_int (f + 1))"

definition my_round :: "real \<Rightarrow> real \<Rightarrow> real" where
  "my_round x c = c * np_round (x / c)"

text \<open>
  What the analysis reads from its data handler: the filled power matrix and the
  daytime mask (both by columns, one column a day), the clear-day flags, the day of
  year of every day of the index, and the sampling interval in minutes.
\<close>

record data_handler =
  filled_data_matrix :: colmat
  daytime :: "bool list list"
  clear :: "bool list"
  day_of_year :: "nat list"
  data_sampling :: real

text \<open>A pandas data frame with a float index: the index and the rows of values.\<close>

record dataframe =
  df_index :: "real list"
  df_values :: mat

text \<open>Rows selected by a boolean array of the same length.\<close>

definition select :: "'a list \<Rightarrow> bool list \<Rightarrow> 'a list" where
  "select xs bs = map fst (filter snd (zip xs bs))"

text \<open>The mean of every column over a group of rows of length \<open>N\<close>.\<close>

definition column_mean :: "nat \<Rightarrow> vec list \<Rightarrow> vec" where
  "column_mean N rows =
     map (\<lambda>j. sum_list (map (\<lambda>r. r ! j) rows) / real (length rows)) [0..<N]"

text \<open>
  \<open>groupby(key).mean()\<close>: one row for every key that occurs, keys ascending, holding
  the column means of the rows with that key.
\<close>

definition groupby_mean :: "nat \<Rightarrow> ('k::linorder \<times> vec) list \<Rightarrow> ('k \<times> vec) list" where
  "groupby_mean N rows =
     map (\<lambda>k. (k, column_mean N (map snd (filter (\<lambda>r. fst r = k) rows))))
       (sort (remdups (map fst rows)))"

text \<open>
  \<open>transform_data\<close>: the resampled surface, and its clear days averaged by rounded
  declination, buckets in descending order. Assigning the \<open>delta\<close> column raises
  ValueError when the day index and the matrix disagree in length, and the boolean
  \<open>iloc\<close> raises IndexError when the clear flags do.
\<close>

definition transform_data :: "data_handler \<Rightarrow> nat \<Rightarrow> error + (colmat \<times> dataframe)" where
  "transform_data h pwr =
     (case batch_process (filled_data_matrix h) (daytime h) pwr of
        Inl e \<Rightarrow> Inl e
      | Inr normalized \<Rightarrow>
          (let delta = map (\<lambda>d. my_round (delta_cooper (real d)) 1) (day_of_year h)
           in if length delta \<noteq> length normalized then Inl ValueError
              else if length (clear h) \<noteq> length normalized then Inl IndexError
              else (let agg_by_azimuth =
                          groupby_mean (2 ^ pwr) (select (zip delta normalized) (clear h))
                    in Inr (normalized,
                            \<lparr>df_index = rev (map fst agg_by_azimuth),
                             df_values = rev (map snd agg_by_azimuth)\<rparr>))))"

section \<open>cvxpy: problems and solvers\<close>

text \<open>
  A convex problem over variables of type \<open>'v\<close>: the declared shapes of the variables
  (\<open>domain\<close>), the objective to minimise, the constraints in the order the code lists
  them, and the values of the variables (\<open>None\<close> until a solve has set them, and after
  a solve that found none).
\<close>

record 'v cvx_problem =
  domain :: "'v \<Rightarrow> bool"
  objective :: "'v \<Rightarrow> real"
  constraints :: "('v \<Rightarrow> bool) list"
  var_value :: "'v option"

text \<open>
  \<open>problem.solve(solver=...)\<close> is outside the repository; it is a parameter of the
  model. It either sets the variables (\<open>Solution\<close>), or ends with a status such as
  infeasible or unbounded and leaves every value \<open>None\<close> without raising
  (\<open>NoSolution\<close>), or raises cvxpy's SolverError (\<open>SolverFailure\<close>).
\<close>

datatype 'v solve_result = Solution 'v | NoSolution string | SolverFailure string

type_synonym 'v solver = "string \<Rightarrow> 'v cvx_problem \<Rightarrow> 'v solve_result"

definition feasible :: "'v cvx_problem \<Rightarrow> 'v \<Rightarrow> bool" where
  "feasible P v = (domain P v \<and> list_all (\<lambda>c. c v) (constraints P))"

definition optimal :: "'v cvx_problem \<Rightarrow> 'v \<Rightarrow> bool" where
  "optimal P v = (feasible P v \<and> (\<forall>u. feasible P u \<longrightarrow> objective P v \<le> objective P u))"

text \<open>A solver is sound when the values it sets satisfy the problem it was given.\<close>

definition sound :: "'v solver \<Rightarrow> bool" where
  "sound solve = (\<forall>name P v. solve name P = Solution v \<longrightarrow> feasible P v)"

definition exact :: "'v solver \<Rightarrow> bool" where
  "exact solve = (\<forall>name P v. solve name P = Solution v \<longrightarrow> optimal P v)"

text \<open>Two solvers for running the model: they answer with a fixed point when it fits.\<close>

definition feasible_point :: "'v \<Rightarrow> 'v solver" where
  "feasible_point v name P = (if feasible P v then Solution v else NoSolution ''infeasible'')"

definition optimal_point :: "'v \<Rightarrow> 'v solver" where
  "optimal_point v name P = (if optimal P v then Solution v else NoSolution ''infeasible'')"

text \<open>Elementwise arithmetic and the atoms of cvxpy that the two modules use.\<close>

definition vadd :: "vec \<Rightarrow> vec \<Rightarrow> vec" where
  "vadd a b = map2 (+) a b"

definition vsub :: "vec \<Rightarrow> vec \<Rightarrow> vec" where
  "vsub a b = map2 (-) a b"

definition madd :: "mat \<Rightarrow> mat \<Rightarrow> mat" where
  "madd a b = map2 vadd a b"

definition msub :: "mat \<Rightarrow> mat \<Rightarrow> mat" where
  "msub a b = map2 vsub a b"

definition smul :: "real \<Rightarrow> mat \<Rightarrow> mat" where
  "smul c a = map (map (\<lambda>v. c * v)) a"

definition mabs :: "mat \<Rightarrow> mat" where
  "mabs a = map (map abs) a"

definition cvx_sum :: "mat \<Rightarrow> real" where
  "cvx_sum a = sum_list (map sum_list a)"

definition sum_squares :: "mat \<Rightarrow> real" where
  "sum_squares a = cvx_sum (map (map (\<lambda>v. v * v)) a)"

definition all_entries :: "(real \<Rightarrow> bool) \<Rightarrow> mat \<Rightarrow> bool" where
  "all_entries p a = list_all (list_all p) a"

text \<open>
  \<open>cvx.diff(x, k, axis)\<close> applies \<open>k\<close> times the first difference along the axis:
  \<open>x[1:] - x[:-1]\<close> on the rows for axis 0, and the same inside every row for axis 1.
  It raises ValueError unless \<open>k\<close> is below the extent of the axis; the builders below
  check that before they use the differences.
\<close>

definition vdiff :: "vec \<Rightarrow> vec" where
  "vdiff a = vsub (tl a) (butlast a)"

definition diff_axis0 :: "mat \<Rightarrow> mat" where
  "diff_axis0 a = msub (tl a) (butlast a)"

definition diff_axis1 :: "mat \<Rightarrow> mat" where
  "diff_axis1 a = map vdiff a"

definition ncols :: "mat \<Rightarrow> nat" where
  "ncols y = (case y of [] \<Rightarrow> 0 | r # _ \<Rightarrow> length r)"

definition mat_shape :: "nat \<Rightarrow> nat \<Rightarrow> mat \<Rightarrow> bool" where
  "mat_shape m n a = (length a = m \<and> list_all (\<lambda>r. length r = n) a)"

section \<open>shade.py: the shade separation problem\<close>

text \<open>The variables \<open>residual\<close> (x1), \<open>clear-sky\<close> (x2) and \<open>shade\<close> (x3).\<close>

record osd_vars =
  residual :: mat
  clear_sky :: mat
  shade :: mat

text \<open>
  \<open>make_osd_problem\<close> on the values \<open>y\<close> of the transformed data: the objective
  (lines 113 to 121 and 133 to 134), the list of constraints (lines 123 to 131) and the
  problem. \<open>cvx.Variable\<close> refuses an empty shape, and the second difference along
  axis 0 and the fourth along axis 1 need more than two rows and more than four columns.
\<close>

definition osd_objective :: "osd_vars \<Rightarrow> real" where
  "osd_objective v =
     (let x1 = residual v; x2 = clear_sky v; x3 = shade v;
          t = 0.85;
          phi1 = cvx_sum (madd (smul 0.5 (mabs x1)) (smul (t - 0.5) x1));
          phi2 = sum_squares ((diff_axis0 ^^ 2) x2) + sum_squares ((diff_axis1 ^^ 2) x2);
          phi3 = sum_squares ((diff_axis0 ^^ 2) x3) + sum_squares ((diff_axis1 ^^ 2) x3);
          phi4 = cvx_sum x3
      in 20 * phi1 + 10 * phi2 + 100 * phi3 + 0.8 * phi4)"

definition osd_constraints :: "mat \<Rightarrow> (osd_vars \<Rightarrow> bool) list" where
  "osd_constraints y =
     [\<lambda>v. y = msub (madd (residual v) (clear_sky v)) (shade v),
      \<lambda>v. all_entries (\<lambda>a. 0 \<le> a) (clear_sky v),
      \<lambda>v. list_all (\<lambda>r. r ! 0 = 0) (clear_sky v),
      \<lambda>v. list_all (\<lambda>r. last r = 0) (clear_sky v),
      \<lambda>v. all_entries (\<lambda>a. a \<le> 0) ((diff_axis1 ^^ 4) (clear_sky v)),
      \<lambda>v. all_entries (\<lambda>a. a \<le> 0) ((diff_axis0 ^^ 2) (clear_sky v)),
      \<lambda>v. all_entries (\<lambda>a. 0 \<le> a) (shade v)]"

definition osd_shape :: "nat \<Rightarrow> nat \<Rightarrow> osd_vars \<Rightarrow> bool" where
  "osd_shape m n v =
     (mat_shape m n (residual v) \<and> mat_shape m n (clear_sky v) \<and> mat_shape m n (shade v))"

definition make_osd_problem :: "mat \<Rightarrow> error + osd_vars cvx_problem" where
  "make_osd_problem y =
     (let m = length y; n = ncols y
      in if m = 0 \<or> n = 0 then Inl ValueError
         else if m \<le> 2 \<or> n \<le> 4 then Inl ValueError
         else Inr \<lparr>domain = osd_shape m n, objective = osd_objective,
                   constraints = osd_constraints y, var_value = None\<rparr>)"

section \<open>The shade separation problem in the words of the specification\<close>







section \<open>shade.py: the analysis object\<close>

text \<open>
  An attribute that holds an array, Python's \<open>None\<close>, or has not been assigned
  (\<open>__init__\<close> assigns neither component).
\<close>

datatype published = NotSet | PyNone | Array mat

record shade_analysis =
  dh :: data_handler
  data_normalized :: "colmat option"
  data_transformed :: "dataframe option"
  osd_problem :: "osd_vars cvx_problem option"
  clear_sky_component :: published
  shade_component :: published
  daily_shade_loss :: "vec option"
  daily_clear_energy :: "vec option"
  daily_modeled_energy :: "vec option"
  avg_energy :: "(nat \<times> real) list option"

definition init :: "data_handler \<Rightarrow> shade_analysis" where
  "init data_handler =
     \<lparr>dh = data_handler, data_normalized = None, data_transformed = None,
      osd_problem = None, clear_sky_component = NotSet, shade_component = NotSet,
      daily_shade_loss = None, daily_clear_energy = None, daily_modeled_energy = None,
      avg_energy = None\<rparr>"

definition has_run :: "shade_analysis \<Rightarrow> bool" where
  "has_run self =
     (data_normalized self \<noteq> None \<and> data_transformed self \<noteq> None \<and> osd_problem self \<noteq> None)"

text \<open>
  The last three lines of \<open>run\<close>: the components are read from the variables of the
  problem, whatever they hold.
\<close>

definition publish :: "shade_analysis \<Rightarrow> shade_analysis" where
  "publish self =
     (case osd_problem self of
        None \<Rightarrow> self
      | Some P \<Rightarrow>
          self\<lparr>clear_sky_component := (case var_value P of None \<Rightarrow> PyNone | Some v \<Rightarrow> Array (clear_sky v)),
               shade_component := (case var_value P of None \<Rightarrow> PyNone | Some v \<Rightarrow> Array (shade v))\<rparr>)"

text \<open>
  A call of a method ends by returning or by raising; either way the object keeps the
  assignments made so far. The calls to \<open>transform_data\<close> and to the solver made on
  the way are listed.
\<close>

datatype ext_call = TransformData nat | Solve string

record run_result =
  calls :: "ext_call list"
  raised :: "error option"
  after :: shade_analysis

definition run :: "osd_vars solver \<Rightarrow> nat \<Rightarrow> string \<Rightarrow> shade_analysis \<Rightarrow> run_result" where
  "run solve pwr solver self =
     (if \<not> has_run self then
        (case transform_data (dh self) pwr of
           Inl e \<Rightarrow> \<lparr>calls = [TransformData pwr], raised = Some e, after = self\<rparr>
         | Inr (dn, dt) \<Rightarrow>
             (let self1 = self\<lparr>data_normalized := Some dn, data_transformed := Some dt\<rparr>
              in case make_osd_problem (df_values dt) of
                   Inl e \<Rightarrow> \<lparr>calls = [TransformData pwr], raised = Some e, after = self1\<rparr>
                 | Inr P \<Rightarrow>
                     (let self2 = self1\<lparr>osd_problem := Some P\<rparr>
                      in case solve solver P of
                           SolverFailure msg \<Rightarrow>
                             \<lparr>calls = [TransformData pwr, Solve solver],
                              raised = Some (SolverError msg), after = self2\<rparr>
                         | NoSolution st \<Rightarrow>
                             \<lparr>calls = [TransformData pwr, Solve solver], raised = None,
                              after = publish self2\<rparr>
                         | Solution v \<Rightarrow>
                             \<lparr>calls = [TransformData pwr, Solve solver], raised = None,
                              after = publish (self2\<lparr>osd_problem := Some (P\<lparr>var_value := Some v\<rparr>)\<rparr>)\<rparr>)))
      else \<lparr>calls = [], raised = None, after = publish self\<rparr>)"

section \<open>shade.py: yearly energy\<close>

text \<open>
  \<open>np.sum(component, axis=1) * scale\<close>: the row sums of a published component. A
  component that is \<open>None\<close> has no axis 1, and one that was never assigned is no
  attribute of the object.
\<close>

definition row_energy :: "published \<Rightarrow> real \<Rightarrow> error + vec" where
  "row_energy component scale =
     (case component of
        Array a \<Rightarrow> Inr (map (\<lambda>r. sum_list r * scale) a)
      | PyNone \<Rightarrow> Inl AxisError
      | NotSet \<Rightarrow> Inl AttributeError)"

text \<open>
  The empirical average: the column sums of the filled matrix, the clear days only,
  averaged by day of year and scaled.
\<close>

definition yearly_avg_energy :: "data_handler \<Rightarrow> real \<Rightarrow> error + (nat \<times> real) list" where
  "yearly_avg_energy h scale =
     (let totals = map sum_list (filled_data_matrix h)
      in if length (day_of_year h) \<noteq> length totals then Inl ValueError
         else if length (clear h) \<noteq> length totals then Inl IndexError
         else Inr (map (\<lambda>(doy, r). (doy, r ! 0 * scale))
                     (groupby_mean 1
                        (select (zip (day_of_year h) (map (\<lambda>e. [e]) totals)) (clear h)))))"

text \<open>The declination of the days of year 1 to 365: \<open>delta_cooper(np.arange(365) + 1)\<close>.\<close>

definition year_declinations :: vec where
  "year_declinations = map (\<lambda>d. delta_cooper (real d)) [1..<366]"

definition analyze_yearly_energy :: "osd_vars solver \<Rightarrow> shade_analysis \<Rightarrow> run_result" where
  "analyze_yearly_energy solve self0 =
     (let r = (if \<not> has_run self0 then run solve 8 ''MOSEK'' self0
               else \<lparr>calls = [], raised = None, after = self0\<rparr>)
      in case raised r of
           Some e \<Rightarrow> r
         | None \<Rightarrow>
             (let self = after r; scale = data_sampling (dh self) / 60
              in case data_transformed self of
                   None \<Rightarrow> r\<lparr>raised := Some AttributeError\<rparr>
                 | Some dt \<Rightarrow>
              (case row_energy (shade_component self) scale of
                   Inl e \<Rightarrow> r\<lparr>raised := Some e\<rparr>
                 | Inr loss_rows \<Rightarrow>
              (case interp1d (df_index dt) loss_rows of
                   Inl e \<Rightarrow> r\<lparr>raised := Some e\<rparr>
                 | Inr f_loss \<Rightarrow>
              (case row_energy (clear_sky_component self) scale of
                   Inl e \<Rightarrow> r\<lparr>raised := Some e\<rparr>
                 | Inr clear_rows \<Rightarrow>
              (case interp1d (df_index dt) clear_rows of
                   Inl e \<Rightarrow> r\<lparr>raised := Some e\<rparr>
                 | Inr f_clear \<Rightarrow>
              (case yearly_avg_energy (dh self) scale of
                   Inl e \<Rightarrow> r\<lparr>raised := Some e\<rparr>
                 | Inr avg \<Rightarrow>
              (case interp_call True f_loss year_declinations of
                   Inl e \<Rightarrow> r\<lparr>raised := Some e\<rparr>
                 | Inr loss \<Rightarrow>
              (case interp_call True f_clear year_declinations of
                   Inl e \<Rightarrow> r\<lparr>raised := Some e\<rparr>
                 | Inr clr \<Rightarrow>
                     r\<lparr>after := self\<lparr>daily_shade_loss := Some loss,
                                      daily_clear_energy := Some clr,
                                      daily_modeled_energy := Some (vsub clr loss),
                                      avg_energy := Some avg\<rparr>\<rparr>)))))))))"

section \<open>soiling.py\<close>

text \<open>
  The observed series is a float array that may hold NaN: an entry is \<open>None\<close> for NaN
  and \<open>Some x\<close> for the number \<open>x\<close>. No number equals NaN.
\<close>

type_synonym series = "real option list"

definition isnan :: "real option \<Rightarrow> bool" where
  "isnan x = (x = None)"

text \<open>
  \<open>np.logical_and\<close> of two boolean arrays: elementwise on equal lengths, an array of
  length one is broadcast, any other pair of lengths raises ValueError.
\<close>

definition logical_and :: "bool list \<Rightarrow> bool list \<Rightarrow> error + bool list" where
  "logical_and a b =
     (if length a = length b then Inr (map2 (\<and>) a b)
      else if length a = 1 then Inr (map (\<lambda>y. a ! 0 \<and> y) b)
      else if length b = 1 then Inr (map (\<lambda>x. x \<and> b ! 0) a)
      else Inl ValueError)"

text \<open>Lines 75 to 78 of soiling.py: the index set that the solver works with.\<close>

definition effective_index_set :: "series \<Rightarrow> bool list option \<Rightarrow> error + bool list" where
  "effective_index_set observed index_set =
     (case index_set of
        None \<Rightarrow> Inr (map (\<lambda>x. \<not> isnan x) observed)
      | Some ix \<Rightarrow> logical_and ix (map (\<lambda>x. \<not> isnan x) observed))"

definition vmul :: "vec \<Rightarrow> vec \<Rightarrow> vec" where
  "vmul a b = map2 (*) a b"

definition cvx_pos :: "real \<Rightarrow> real" where
  "cvx_pos x = max x 0"

definition cvx_neg :: "real \<Rightarrow> real" where
  "cvx_neg x = max (- x) 0"

definition norm1 :: "vec \<Rightarrow> real" where
  "norm1 a = sum_list (map abs a)"

definition norm2 :: "vec \<Rightarrow> real" where
  "norm2 a = sqrt (sum_list (map (\<lambda>x. x * x) a))"

text \<open>
  The variables of \<open>soiling_seperation\<close>: \<open>s1\<close> soiling, \<open>s2\<close> seasonal (of length
  \<open>max(n, 367)\<close>), \<open>s3\<close> degradation, \<open>sr\<close> residual.
\<close>

record soiling_vars =
  s1 :: vec
  s2 :: vec
  s3 :: vec
  sr :: vec

text \<open>The keyword arguments of \<open>soiling_seperation\<close> and their defaults.\<close>

record soiling_args =
  degradation_term :: bool
  tau :: real
  c1 :: real
  c2 :: real
  c3 :: real
  iterations :: nat
  soiling_max :: real
  solver :: string

definition soiling_defaults :: soiling_args where
  "soiling_defaults =
     \<lparr>degradation_term = False, tau = 0.85, c1 = 2, c2 = 0.01, c3 = 100, iterations = 5,
      soiling_max = 1, solver = ''MOSEK''\<rparr>"

text \<open>
  The problem that one pass of the loop builds from the current weights \<open>w\<close> and the
  current \<open>zero_set\<close>.
\<close>

definition soiling_problem ::
  "series \<Rightarrow> bool list \<Rightarrow> soiling_args \<Rightarrow> vec \<Rightarrow> bool list \<Rightarrow> soiling_vars cvx_problem" where
  "soiling_problem observed index_set a w zero_set =
     (let n = length observed
      in \<lparr>domain = (\<lambda>v. length (s1 v) = n \<and> length (s2 v) = max n 367
                         \<and> length (s3 v) = n \<and> length (sr v) = n),
          objective = (\<lambda>v.
              sum_list (map (\<lambda>r. tau a * cvx_pos r + (1 - tau a) * cvx_neg r) (sr v))
            + c3 a * norm2 ((vdiff ^^ 2) (take n (s2 v)))
            + c1 a * norm1 (vmul w ((vdiff ^^ 2) (s1 v)))
            + c2 a * sum_list (map (\<lambda>x. 1 - x) (s1 v))),
          constraints =
            [\<lambda>v. select observed index_set =
                   map Some (select (vadd (vadd (vadd (s1 v) (take n (s2 v))) (s3 v)) (sr v))
                               index_set),
             \<lambda>v. list_all (\<lambda>x. x = 0)
                   (vsub (drop 365 (s2 v)) (take (length (s2 v) - 365) (s2 v))),
             \<lambda>v. sum_list (take 365 (s2 v)) = 0,
             \<lambda>v. list_all (\<lambda>x. x \<le> soiling_max a) (s1 v)]
            @ (if degradation_term a
               then [\<lambda>v. list_all (\<lambda>x. x = 0) ((vdiff ^^ 2) (s3 v)), \<lambda>v. s3 v ! 0 = 0]
               else [\<lambda>v. list_all (\<lambda>x. x = 0) (s3 v)])
            @ (if 0 < count_true zero_set
               then [\<lambda>v. list_all (\<lambda>x. x = 0) (select (vdiff (s1 v)) zero_set)]
               else [])
            @ (if real n < 0.75 * 365 then [\<lambda>v. list_all (\<lambda>x. x = 0) (s2 v)] else []),
          var_value = None\<rparr>)"

text \<open>Lines 120 and 121: the new weights and the new \<open>zero_set\<close>, with \<open>eps = .01\<close>.\<close>

definition reweight :: "soiling_vars \<Rightarrow> vec" where
  "reweight v = (let eps = 0.01 in map (\<lambda>d. 1 / (eps + 100 * \<bar>d\<bar>)) ((vdiff ^^ 2) (s1 v)))"

definition flat_set :: "soiling_vars \<Rightarrow> bool list" where
  "flat_set v = map (\<lambda>d. \<bar>d\<bar> \<le> 5 / 100000) (vdiff (s1 v))"

text \<open>
  The loop: \<open>k\<close> passes are left, \<open>vals\<close> are the values the variables hold. A solve
  that ends without values leaves \<open>None\<close> in \<open>cvx.diff(s1, k=2).value\<close>, and
  \<open>np.abs(None)\<close> raises TypeError.
\<close>

fun soiling_loop ::
  "soiling_vars solver \<Rightarrow> series \<Rightarrow> bool list \<Rightarrow> soiling_args \<Rightarrow> nat \<Rightarrow> vec \<Rightarrow> bool list
     \<Rightarrow> soiling_vars option \<Rightarrow> error + soiling_vars option" where
  "soiling_loop solve observed index_set a 0 w zero_set vals = Inr vals"
| "soiling_loop solve observed index_set a (Suc k) w zero_set vals =
     (case solve (solver a) (soiling_problem observed index_set a w zero_set) of
        SolverFailure msg \<Rightarrow> Inl (SolverError msg)
      | NoSolution st \<Rightarrow> Inl TypeError
      | Solution v \<Rightarrow>
          soiling_loop solve observed index_set a k (reweight v) (flat_set v) (Some v))"

text \<open>
  \<open>soiling_seperation\<close>. \<open>cvx.Parameter(n - 2)\<close> needs \<open>n - 2\<close> positive, so a series
  shorter than three raises ValueError; with no pass of the loop the variables hold
  \<open>None\<close>, and \<open>s2.value[:n]\<close> raises TypeError.
\<close>

definition soiling_seperation ::
  "soiling_vars solver \<Rightarrow> series \<Rightarrow> bool list option \<Rightarrow> soiling_args
     \<Rightarrow> error + (vec \<times> vec \<times> vec \<times> vec)" where
  "soiling_seperation solve observed index_set0 a =
     (case effective_index_set observed index_set0 of
        Inl e \<Rightarrow> Inl e
      | Inr index_set \<Rightarrow>
          (let n = length observed
           in if n < 3 then Inl ValueError
              else case soiling_loop solve observed index_set a (iterations a)
                          (replicate (n - 2) 1) (replicate (n - 1) False) None of
                     Inl e \<Rightarrow> Inl e
                   | Inr None \<Rightarrow> Inl TypeError
                   | Inr (Some v) \<Rightarrow> Inr (s1 v, take n (s2 v), s3 v, sr v)))"

text \<open>
  The variables of \<open>soiling_seperation_algorithm_v2\<close>: \<open>s1\<close> error, \<open>s2\<close> seasonal,
  \<open>s3\<close> soiling, \<open>s4\<close> long term degradation.
\<close>

record v2_vars =
  v2_s1 :: vec
  v2_s2 :: vec
  v2_s3 :: vec
  v2_s4 :: vec

record v2_args =
  v2_iterations :: nat
  weights :: "vec option"
  known_set :: "bool list option"
  lmbda1 :: real
  lmbda2 :: real
  lmbda3 :: real

definition v2_defaults :: v2_args where
  "v2_defaults =
     \<lparr>v2_iterations = 5, weights = None, known_set = None, lmbda1 = 500, lmbda2 = 0.1,
      lmbda3 = 1 / 100000\<rparr>"

text \<open>
  \<open>data\<close>: NaN everywhere but on the known set, where it is \<open>log10\<close> of the observed
  value (not a number for NaN and for a value that is not positive).
\<close>

definition log10_data :: "series \<Rightarrow> bool list \<Rightarrow> series" where
  "log10_data observed known =
     map2 (\<lambda>x k. if k then (case x of None \<Rightarrow> None
                                | Some r \<Rightarrow> if 0 < r then Some (log 10 r) else None)
                 else None)
       observed known"

text \<open>
  The problem that one pass of the loop of the second variant builds from the current
  weights \<open>w\<close>. Here the seasonal variable has the length of the series, so for a
  series of at most 365 entries the slices \<open>s2[365:]\<close> and \<open>s2[:-365]\<close> are
  empty and the periodicity constraint says nothing.
\<close>

definition v2_problem :: "series \<Rightarrow> bool list \<Rightarrow> vec \<Rightarrow> v2_args \<Rightarrow> vec \<Rightarrow> v2_vars cvx_problem" where
  "v2_problem observed known wts a w =
     (let n = length observed; data = log10_data observed known
      in \<lparr>domain = (\<lambda>v. length (v2_s1 v) = n \<and> length (v2_s2 v) = n
                         \<and> length (v2_s3 v) = n \<and> length (v2_s4 v) = n),
          objective = (\<lambda>v.
              norm2 (vmul (v2_s1 v) wts)
            + lmbda1 a * sum_list (map (\<lambda>x. x * x) ((vdiff ^^ 2) (v2_s2 v)))
            + lmbda2 a * norm1 (vmul w ((vdiff ^^ 2) (v2_s3 v)))
            + lmbda3 a * norm1 (v2_s3 v)),
          constraints =
            [\<lambda>v. select data known =
                   map Some (select (vadd (vadd (vadd (v2_s1 v) (v2_s2 v)) (v2_s3 v)) (v2_s4 v))
                               known),
             \<lambda>v. list_all (\<lambda>x. x = 0)
                   (vsub (drop 365 (v2_s2 v)) (take (length (v2_s2 v) - 365) (v2_s2 v))),
             \<lambda>v. sum_list (take 365 (v2_s2 v)) = 0,
             \<lambda>v. list_all (\<lambda>x. x \<le> 0) (v2_s3 v),
             \<lambda>v. list_all (\<lambda>x. x = 0) ((vdiff ^^ 2) (v2_s4 v)),
             \<lambda>v. v2_s4 v ! 0 = 0],
          var_value = None\<rparr>)"

text \<open>Line 48: the new weights, with \<open>eps = 1e-5\<close>.\<close>

definition v2_reweight :: "v2_vars \<Rightarrow> vec" where
  "v2_reweight v = (let eps = 1 / 100000 in map (\<lambda>d. 1 / (eps + \<bar>d\<bar>)) ((vdiff ^^ 2) (v2_s1 v)))"

fun v2_loop ::
  "v2_vars solver \<Rightarrow> series \<Rightarrow> bool list \<Rightarrow> vec \<Rightarrow> v2_args \<Rightarrow> nat \<Rightarrow> vec \<Rightarrow> v2_vars option
     \<Rightarrow> error + v2_vars option" where
  "v2_loop solve observed known wts a 0 w vals = Inr vals"
| "v2_loop solve observed known wts a (Suc k) w vals =
     (case solve ''MOSEK'' (v2_problem observed known wts a w) of
        SolverFailure msg \<Rightarrow> Inl (SolverError msg)
      | NoSolution st \<Rightarrow> Inl TypeError
      | Solution v \<Rightarrow> v2_loop solve observed known wts a k (v2_reweight v) (Some v))"

text \<open>
  \<open>soiling_seperation_algorithm_v2\<close>. \<open>np.ones(n - 2)\<close> needs two entries, the
  parameters \<open>lmbda1\<close> and \<open>lmbda2\<close> must not be negative, the weights and the known
  set must be as long as the series, and \<open>cvx.diff(s3, k=2)\<close> needs three entries.
  With no pass of the loop the variables are never bound.
\<close>

definition soiling_seperation_algorithm_v2 ::
  "v2_vars solver \<Rightarrow> series \<Rightarrow> v2_args \<Rightarrow> error + (vec \<times> vec \<times> vec \<times> vec)" where
  "soiling_seperation_algorithm_v2 solve observed a =
     (let n = length observed;
          wts = (case weights a of None \<Rightarrow> replicate n 1 | Some ws \<Rightarrow> ws);
          known = (case known_set a of None \<Rightarrow> map (\<lambda>x. \<not> isnan x) observed | Some k \<Rightarrow> k)
      in if length known \<noteq> n then Inl IndexError
         else if n < 2 \<or> lmbda1 a < 0 \<or> lmbda2 a < 0 then Inl ValueError
         else if v2_iterations a = 0 then Inl NameError
         else if n < 3 \<or> length wts \<noteq> n then Inl ValueError
         else case v2_loop solve observed known wts a (v2_iterations a) (replicate (n - 2) 1) None of
                Inl e \<Rightarrow> Inl e
              | Inr None \<Rightarrow> Inl NameError
              | Inr (Some v) \<Rightarrow> Inr (v2_s1 v, v2_s2 v, v2_s3 v, v2_s4 v))"

section \<open>A small installation\<close>

text \<open>
  Three clear days, at the summer solstice, the spring equinox and the winter
  solstice, each with two daytime samples out of four, sampled every 15 minutes; its
  resampled surface at \<open>power = 3\<close>, the surface by declination, and a point of the
  shade separation problem in which the clear-sky component carries the interior of
  the surface.
\<close>

definition example_handler :: data_handler where
  "example_handler =
     \<lparr>filled_data_matrix = [[0, 1, 1, 0], [0, 2, 2, 0], [0, 3, 3, 0]],
      daytime = [[False, True, True, False], [False, True, True, False],
                 [False, True, True, False]],
      clear = [True, True, True],
      day_of_year = [172, 81, 355],
      data_sampling = 15\<rparr>"

definition example_normalized :: colmat where
  "example_normalized =
     [[1 / 4, 1 / 4, 1 / 4, 1 / 4, 1 / 4, 1 / 4, 1 / 4, 1 / 4],
      [1 / 2, 1 / 2, 1 / 2, 1 / 2, 1 / 2, 1 / 2, 1 / 2, 1 / 2],
      [3 / 4, 3 / 4, 3 / 4, 3 / 4, 3 / 4, 3 / 4, 3 / 4, 3 / 4]]"

definition example_transformed :: dataframe where
  "example_transformed = \<lparr>df_index = [23, 0, - 23], df_values = example_normalized\<rparr>"

definition example_residual :: mat where
  "example_residual =
     [[1 / 4, 0, 0, 0, 0, 0, 0, 1 / 4],
      [1 / 2, 0, 0, 0, 0, 0, 0, 1 / 2],
      [3 / 4, 0, 0, 0, 0, 0, 0, 3 / 4]]"

definition example_clear_sky :: mat where
  "example_clear_sky =
     [[0, 1 / 4, 1 / 4, 1 / 4, 1 / 4, 1 / 4, 1 / 4, 0],
      [0, 1 / 2, 1 / 2, 1 / 2, 1 / 2, 1 / 2, 1 / 2, 0],
      [0, 3 / 4, 3 / 4, 3 / 4, 3 / 4, 3 / 4, 3 / 4, 0]]"

definition example_shade :: mat where
  "example_shade =
     [[0, 0, 0, 0, 0, 0, 0, 0], [0, 0, 0, 0, 0, 0, 0, 0], [0, 0, 0, 0, 0, 0, 0, 0]]"

definition example_vars :: osd_vars where
  "example_vars =
     \<lparr>residual = example_residual, clear_sky = example_clear_sky, shade = example_shade\<rparr>"

definition example_problem :: "osd_vars cvx_problem" where
  "example_problem =
     \<lparr>domain = osd_shape 3 8, objective = osd_objective,
      constraints = osd_constraints example_normalized, var_value = None\<rparr>"

text \<open>The object after \<open>run(power=3)\<close> with a solver that sets the point above.\<close>

definition example_state :: shade_analysis where
  "example_state =
     \<lparr>dh = example_handler, data_normalized = Some example_normalized,
      data_transformed = Some example_transformed,
      osd_problem = Some (example_problem\<lparr>var_value := Some example_vars\<rparr>),
      clear_sky_component = Array example_clear_sky, shade_component = Array example_shade,
      daily_shade_loss = None, daily_clear_energy = None, daily_modeled_energy = None,
      avg_energy = None\<rparr>"

text \<open>A solver that raises, and one that ends without a solution.\<close>

definition raising :: "string \<Rightarrow> 'v solver" where
  "raising msg name P = SolverFailure msg"

definition no_solution :: "string \<Rightarrow> 'v solver" where
  "no_solution st name P = NoSolution st"

section \<open>Points of the soiling problems\<close>

text \<open>
  Points used to run the two soiling solvers on constant series: three days and 366
  days of performance index 1, 300 days of performance index 2 (soiling at its cap 1,
  the rest seasonal, and the 65 entries of the seasonal variable beyond the series
  balancing the sum), and a point of the problem of the second variant on three days.
\<close>

definition three_day_point :: soiling_vars where
  "three_day_point =
     \<lparr>s1 = replicate 3 1, s2 = replicate 367 0, s3 = replicate 3 0, sr = replicate 3 0\<rparr>"

definition short_year_point :: soiling_vars where
  "short_year_point =
     \<lparr>s1 = replicate 300 1,
      s2 = replicate 300 1 @ replicate 65 (- (60 / 13)) @ replicate 2 1,
      s3 = replicate 300 0, sr = replicate 300 0\<rparr>"

definition full_year_point :: soiling_vars where
  "full_year_point =
     \<lparr>s1 = replicate 366 1, s2 = replicate 367 0, s3 = replicate 366 0, sr = replicate 366 0\<rparr>"

definition v2_point :: v2_vars where
  "v2_point = \<lparr>v2_s1 = [0, 2, 0], v2_s2 = [1, - 2, 1], v2_s3 = [- 1, 0, - 1], v2_s4 = [0, 0, 0]\<rparr>"

text \<open>
  A series of three days with NaN on the second one, and values for it whose sum differs
  from every number on that day.
\<close>

definition gap_point :: soiling_vars where
  "gap_point = \<lparr>s1 = [1, 1, 1], s2 = replicate 367 0, s3 = [0, 0, 0], sr = [0, 9, 9]\<rparr>"

text \<open>
  Three days of index 1, 0.1 and 1 for the second variant (the data are their \<open>log10\<close>:
  0, -1 and 0): the values below are the minimiser of the first pass, with no error, a dip
  in the soiling component and the rest in the seasonal and the degradation components.
\<close>

definition dip_point :: v2_vars where
  "dip_point =
     \<lparr>v2_s1 = [0, 0, 0],
      v2_s2 = [0, - (6667 / 200000000), 6667 / 200000000],
      v2_s3 = [0, - (399979999 / 400000000), 0],
      v2_s4 = [0, - (6667 / 400000000), - (6667 / 200000000)]\<rparr>"

section \<open>Resampling: proofs\<close>

lemma batch_loop_nth:
  "batch_loop data dmask N cols = Inr out \<Longrightarrow>
     length out = length cols \<and>
     (\<forall>k < length cols. process_column (data ! (cols ! k)) (dmask ! (cols ! k)) N = Inr (out ! k))"
proof (induction cols arbitrary: out)
  case Nil
  then show ?case by simp
next
  case (Cons c cols)
  from Cons.prems obtain col rest where
    c: "process_column (data ! c) (dmask ! c) N = Inr col" and
    r: "batch_loop data dmask N cols = Inr rest" and
    o: "out = col # rest"
    by (auto split: if_splits sum.splits)
  from Cons.IH [OF r] have
    len: "length rest = length cols" and
    nth: "\<forall>k < length cols. process_column (data ! (cols ! k)) (dmask ! (cols ! k)) N = Inr (rest ! k)"
    by simp_all
  show ?case
  proof (intro conjI allI impI)
    show "length out = length (c # cols)" using o len by simp
  next
    fix k assume "k < length (c # cols)"
    then show "process_column (data ! ((c # cols) ! k)) (dmask ! ((c # cols) ! k)) N = Inr (out ! k)"
      using c nth o by (cases k) simp_all
  qed
qed

lemma sum_list_scaled: "sum_list (map (\<lambda>r. r * e / s) rs) = sum_list rs * e / (s::real)"
  by (induction rs) (simp_all add: add_divide_distrib distrib_right)

lemma process_column_energy:
  assumes "process_column y msk N = Inr c" and "resampled_signal y msk N = Inr rs"
    and "sum_list rs > 0"
  shows "sum_list c = sum_list y"
proof -
  from assms have "c = map (\<lambda>r. r * sum_list y / sum_list rs) rs"
    by (simp add: process_column_def Let_def)
  then show ?thesis using assms(3) by (simp add: sum_list_scaled)
qed

lemmas resample_defs = batch_process_def process_column_def resampled_signal_def masked_def
  interp1d_def interp_call_def call_linear_def searchsorted_def linspace01_def count_true_def
  Let_def

text \<open>
  Claim C2, as the code has it. For every day of a matrix that \<open>batch_process\<close>
  accepts: when the interpolated signal of the day has a positive sum, the column of
  the output sums to the sum of the whole column of the input (every row of the day,
  inside the daytime mask or not); otherwise the column of the output is zero.
\<close>

theorem batch_process_energy:
  assumes "batch_process data dmask pwr = Inr output" and "col_ix < length data"
  shows "length output = length data \<and>
         (\<exists>rs. resampled_signal (data ! col_ix) (dmask ! col_ix) (2 ^ pwr) = Inr rs \<and>
               (if 0 < sum_list rs then sum_list (output ! col_ix) = sum_list (data ! col_ix)
                else output ! col_ix = replicate (2 ^ pwr) 0))"
proof -
  from assms(1) have loop: "batch_loop data dmask (2 ^ pwr) [0..<length data] = Inr output"
    by (simp add: batch_process_def)
  from batch_loop_nth [OF loop] assms(2) have len: "length output = length data"
    and col: "process_column (data ! col_ix) (dmask ! col_ix) (2 ^ pwr) = Inr (output ! col_ix)"
    by auto
  from col obtain rs where rs: "resampled_signal (data ! col_ix) (dmask ! col_ix) (2 ^ pwr) = Inr rs"
    by (auto simp: process_column_def Let_def split: sum.splits)
  have "sum_list (output ! col_ix) = sum_list (data ! col_ix)" if "0 < sum_list rs"
    using process_column_energy [OF col rs that] .
  moreover have "output ! col_ix = replicate (2 ^ pwr) 0" if "\<not> 0 < sum_list rs"
    using col rs that by (simp add: process_column_def Let_def)
  ultimately show ?thesis using len rs by auto
qed

text \<open>
  The sum that is preserved is not the sum of the masked values: a day with readings
  1, 2, 3, 5 of which the middle two are daytime has masked energy 5, and its
  resampled column sums to 11.
\<close>

theorem batch_process_masked_energy_counterexample:
  "batch_process [[1, 2, 3, 5]] [[False, True, True, False]] 1 = Inr [[22 / 5, 33 / 5]]
   \<and> masked [1, 2, 3, 5 :: real] [False, True, True, False] = Inr [2, 3]
   \<and> 0 < sum_list [2, 3 :: real]
   \<and> sum_list [22 / 5, 33 / 5 :: real] \<noteq> sum_list [2, 3]"
  by (simp add: resample_defs upt_rec)

theorem batch_process_energy_witness:
  "batch_process [[1, 2, 3, 5]] [[False, True, True, False]] 1 = Inr [[22 / 5, 33 / 5]]
   \<and> (0::nat) < length [[1, 2, 3, 5 :: real]]
   \<and> resampled_signal [1, 2, 3, 5] [False, True, True, False] (2 ^ 1) = Inr [2, 3]
   \<and> sum_list ([[22 / 5, 33 / 5]] ! 0) = sum_list ([[1, 2, 3, 5 :: real]] ! 0)"
proof -
  have h1: "batch_process [[1, 2, 3, 5]] [[False, True, True, False]] 1 = Inr [[22 / 5, 33 / 5]]"
    by (simp add: resample_defs upt_rec)
  have h2: "(0::nat) < length [[1, 2, 3, 5 :: real]]" by simp
  have rs: "resampled_signal [1, 2, 3, 5] [False, True, True, False] (2 ^ 1) = Inr [2, 3]"
    by (simp add: resample_defs upt_rec)
  from batch_process_energy [OF h1 h2] rs
  have "sum_list ([[22 / 5, 33 / 5]] ! 0) = sum_list ([[1, 2, 3, 5 :: real]] ! 0)"
    by simp
  with h1 h2 rs show ?thesis by blast
qed


lemma scatter_length: "length (scatter ms vs) = length ms"
  by (induction ms vs rule: scatter.induct) simp_all

lemma scatter_outside: "i < length ms \<Longrightarrow> \<not> ms ! i \<Longrightarrow> scatter ms vs ! i = 0"
proof (induction ms vs arbitrary: i rule: scatter.induct)
  case (1 vs)
  then show ?case by simp
next
  case (2 ms v vs)
  then show ?case by (cases i) simp_all
next
  case (3 ms)
  then show ?case by (cases i) simp_all
next
  case (4 ms vs)
  then show ?case by (cases i) simp_all
qed

lemma undo_loop_result:
  "undo_loop xs_old data dmask cols out0 = Inr out \<Longrightarrow> length out0 = length dmask \<Longrightarrow>
     length out = length dmask
     \<and> (\<forall>c \<in> set cols. c < length dmask \<and>
           (\<exists>rs. undo_signal xs_old (data ! c) (dmask ! c) = Inr rs \<and> out ! c = scatter (dmask ! c) rs))
     \<and> (\<forall>j. j \<notin> set cols \<longrightarrow> out ! j = out0 ! j)"
proof (induction cols arbitrary: out0)
  case Nil
  then show ?case by simp
next
  case (Cons c cols)
  from Cons.prems(1) obtain rs where
    c: "c < length dmask" and
    rs: "undo_signal xs_old (data ! c) (dmask ! c) = Inr rs" and
    rest: "undo_loop xs_old data dmask cols (out0[c := scatter (dmask ! c) rs]) = Inr out"
    by (auto split: if_splits sum.splits)
  let ?out1 = "out0[c := scatter (dmask ! c) rs]"
  have len1: "length ?out1 = length dmask" using Cons.prems(2) by simp
  note IH = Cons.IH [OF rest len1]
  have here: "out ! c = scatter (dmask ! c) rs"
  proof (cases "c \<in> set cols")
    case True
    with IH rs show ?thesis by auto
  next
    case False
    with IH have "out ! c = ?out1 ! c" by simp
    then show ?thesis using c Cons.prems(2) by simp
  qed
  show ?case
  proof (intro conjI ballI allI impI)
    show "length out = length dmask" using IH by simp
  next
    fix d assume "d \<in> set (c # cols)"
    then show "d < length dmask" using c IH by auto
  next
    fix d assume d: "d \<in> set (c # cols)"
    show "\<exists>rs. undo_signal xs_old (data ! d) (dmask ! d) = Inr rs \<and> out ! d = scatter (dmask ! d) rs"
    proof (cases "d = c")
      case True
      then show ?thesis using rs here by blast
    next
      case False
      with d have "d \<in> set cols" by simp
      with IH show ?thesis by blast
    qed
  next
    fix j assume j: "j \<notin> set (c # cols)"
    then have "out ! j = ?out1 ! j" using IH by simp
    also have "\<dots> = out0 ! j" using j by simp
    finally show "out ! j = out0 ! j" .
  qed
qed

lemma undo_signal_length:
  "undo_signal xs_old c msk = Inr rs \<Longrightarrow> length rs = count_true msk"
  by (auto simp: undo_signal_def interp_call_def linspace01_def split: sum.splits prod.splits if_splits)

lemma undo_batch_process_zero_outside:
  assumes "undo_batch_process data dmask = Inr output"
  shows "length output = length dmask \<and>
         (\<forall>j < length dmask. length (output ! j) = length (dmask ! j) \<and>
            (\<forall>i < length (dmask ! j). \<not> dmask ! j ! i \<longrightarrow> output ! j ! i = 0))"
proof -
  let ?out0 = "map (\<lambda>m. replicate (length m) (0::real)) dmask"
  from assms have loop:
    "undo_loop (linspace01 (shape0 data)) data dmask [0..<length data] ?out0 = Inr output"
    by (simp add: undo_batch_process_def)
  have len0: "length ?out0 = length dmask" by simp
  note R = undo_loop_result [OF loop len0]
  have col: "length (output ! j) = length (dmask ! j) \<and>
            (\<forall>i < length (dmask ! j). \<not> dmask ! j ! i \<longrightarrow> output ! j ! i = 0)"
    if j: "j < length dmask" for j
  proof (cases "j \<in> set [0..<length data]")
    case True
    with R obtain rs where "output ! j = scatter (dmask ! j) rs" by blast
    then show ?thesis by (simp add: scatter_length scatter_outside)
  next
    case False
    with R have "output ! j = ?out0 ! j" by blast
    then show ?thesis using j by simp
  qed
  with R show ?thesis by blast
qed


lemma insort_key_apsnd:
  "insort_key fst (apsnd f p) (map (apsnd f) ps) = map (apsnd f) (insort_key fst p ps)"
  by (induction ps) auto

lemma sort_key_apsnd: "sort_key fst (map (apsnd f) ps) = map (apsnd f) (sort_key fst ps)"
  by (induction ps) (simp_all add: insort_key_apsnd)

lemma zip_map_apsnd: "zip x (map f y) = map (apsnd f) (zip x y)"
  by (induction x arbitrary: y) (auto simp: zip_Cons1 split: list.splits)

lemma interp1d_lengths:
  "interp1d x y = Inr (sx, sy) \<Longrightarrow> length sx = length x \<and> length sy = length x \<and> 2 \<le> length x"
  by (auto simp: interp1d_def Let_def split: if_splits)

lemma interp1d_scaled:
  assumes "interp1d x y = Inr (sx, sy)"
  shows "interp1d x (map f y) = Inr (sx, map f sy)"
  using assms
  by (auto simp: interp1d_def Let_def zip_map_apsnd sort_key_apsnd comp_def split: if_splits)

lemma call_linear_scaled:
  assumes "length sy = length sx" and "2 \<le> length sx"
  shows "call_linear sx (map (\<lambda>v. v * c) sy) t = call_linear sx sy t * c"
proof -
  let ?idx = "min (max (searchsorted sx t) 1) (length sx - 1)"
  have hi: "?idx < length sy" and lo: "?idx - 1 < length sy"
    using assms by auto
  show ?thesis
    using hi lo
    by (simp add: call_linear_def Let_def algebra_simps diff_divide_distrib)
qed

lemma undo_signal_scaled:
  assumes "undo_signal xs_old col msk = Inr back"
  shows "undo_signal xs_old (map (\<lambda>v. v * c) col) msk = Inr (map (\<lambda>v. v * c) back)"
proof -
  from assms obtain sx sy where
    f: "interp1d xs_old col = Inr (sx, sy)" and
    call: "interp_call False (sx, sy) (linspace01 (count_true msk)) = Inr back"
    by (auto simp: undo_signal_def split: sum.splits)
  from interp1d_lengths [OF f] have len: "length sy = length sx" "2 \<le> length sx" by simp_all
  have "interp_call False (sx, map (\<lambda>v. v * c) sy) (linspace01 (count_true msk))
          = Inr (map (\<lambda>v. v * c) back)"
    using call by (auto simp: interp_call_def call_linear_scaled [OF len] split: if_splits)
  then show ?thesis
    by (simp add: undo_signal_def interp1d_scaled [OF f])
qed

lemma undo_signal_error:
  assumes "undo_signal xs_old col msk = Inl e"
  shows "undo_signal xs_old (map f col) msk = Inl e"
  using assms
  by (auto simp: undo_signal_def interp1d_def Let_def interp_call_def zip_map_apsnd
      sort_key_apsnd comp_def split: sum.splits if_splits prod.splits)

lemma resampled_signal_length: "resampled_signal y msk N = Inr rs \<Longrightarrow> length rs = N"
  by (auto simp: resampled_signal_def interp_call_def linspace01_def
      split: sum.splits prod.splits if_splits)

lemma process_column_scaled:
  assumes "process_column y msk N = Inr c"
  shows "\<exists>rs. resampled_signal y msk N = Inr rs \<and> length c = N \<and>
           c = map (\<lambda>v. v * (if 0 < sum_list rs then sum_list y / sum_list rs else 0)) rs"
proof -
  from assms obtain rs where rs: "resampled_signal y msk N = Inr rs"
    by (auto simp: process_column_def Let_def split: sum.splits)
  note len = resampled_signal_length [OF rs]
  have "c = map (\<lambda>v. v * (if 0 < sum_list rs then sum_list y / sum_list rs else 0)) rs"
  proof (cases "0 < sum_list rs")
    case True
    with assms rs show ?thesis by (simp add: process_column_def Let_def)
  next
    case False
    with assms rs have "c = replicate N 0" by (simp add: process_column_def Let_def)
    also have "\<dots> = map (\<lambda>v. v * 0) rs"
      using len by (simp add: map_replicate_const)
    finally show ?thesis using False by simp
  qed
  with rs len show ?thesis by auto
qed

text \<open>
  Claim C7, as the code has it. The output of \<open>undo_batch_process\<close> after
  \<open>batch_process\<close> is shaped like the mask and is exactly zero at every position
  outside the mask. At the masked positions of a day it holds the day's masked trace,
  interpolated onto the grid and back, multiplied by the factor by which
  \<open>batch_process\<close> rescaled the day (the sum of the day's column over the sum of its
  resampled signal, or zero when that sum is not positive): the rescaling is not undone.
\<close>

theorem undo_batch_process_roundtrip:
  assumes fwd: "batch_process X dmask pwr = Inr B"
    and bwd: "undo_batch_process B dmask = Inr output"
  shows "length output = length dmask
     \<and> (\<forall>j < length dmask. length (output ! j) = length (dmask ! j) \<and>
           (\<forall>i < length (dmask ! j). \<not> dmask ! j ! i \<longrightarrow> output ! j ! i = 0))
     \<and> (\<forall>j < length X. \<exists>rs back.
           resampled_signal (X ! j) (dmask ! j) (2 ^ pwr) = Inr rs
           \<and> undo_signal (linspace01 (2 ^ pwr)) rs (dmask ! j) = Inr back
           \<and> output ! j = scatter (dmask ! j)
               (map (\<lambda>v. v * (if 0 < sum_list rs then sum_list (X ! j) / sum_list rs else 0)) back))"
proof -
  from fwd have loop: "batch_loop X dmask (2 ^ pwr) [0..<length X] = Inr B"
    by (simp add: batch_process_def)
  from batch_loop_nth [OF loop] have lenB: "length B = length X"
    and cols: "\<forall>k < length X. process_column (X ! k) (dmask ! k) (2 ^ pwr) = Inr (B ! k)"
    by auto
  let ?out0 = "map (\<lambda>m. replicate (length m) (0::real)) dmask"
  from bwd have uloop:
    "undo_loop (linspace01 (shape0 B)) B dmask [0..<length B] ?out0 = Inr output"
    by (simp add: undo_batch_process_def)
  have len0: "length ?out0 = length dmask" by simp
  note R = undo_loop_result [OF uloop len0]
  have round: "\<exists>rs back.
           resampled_signal (X ! j) (dmask ! j) (2 ^ pwr) = Inr rs
           \<and> undo_signal (linspace01 (2 ^ pwr)) rs (dmask ! j) = Inr back
           \<and> output ! j = scatter (dmask ! j)
               (map (\<lambda>v. v * (if 0 < sum_list rs then sum_list (X ! j) / sum_list rs else 0)) back)"
    if j: "j < length X" for j
  proof -
    let ?f = "\<lambda>rs. if 0 < sum_list rs then sum_list (X ! j) / sum_list rs else (0::real)"
    from cols j obtain rs where
      rs: "resampled_signal (X ! j) (dmask ! j) (2 ^ pwr) = Inr rs" and
      Bj: "B ! j = map (\<lambda>v. v * ?f rs) rs"
      using process_column_scaled by blast
    from cols j lenB have "process_column (X ! 0) (dmask ! 0) (2 ^ pwr) = Inr (B ! 0)"
      by (cases "length X") auto
    then have "length (B ! 0) = 2 ^ pwr"
      using process_column_scaled by blast
    moreover have "B \<noteq> []" using j lenB by auto
    ultimately have sh: "shape0 B = 2 ^ pwr"
      by (cases B) (simp_all add: shape0_def)
    from R j lenB obtain us where
      us: "undo_signal (linspace01 (shape0 B)) (B ! j) (dmask ! j) = Inr us" and
      oj: "output ! j = scatter (dmask ! j) us"
      by (metis atLeastLessThan_iff set_upt zero_le)
    have "length (B ! j) = 2 ^ pwr" using Bj resampled_signal_length [OF rs] by simp
    obtain rb where rb: "undo_signal (linspace01 (2 ^ pwr)) rs (dmask ! j) = Inr rb"
    proof (cases "undo_signal (linspace01 (2 ^ pwr)) rs (dmask ! j)")
      case (Inl e)
      then have "undo_signal (linspace01 (2 ^ pwr)) (map (\<lambda>v. v * ?f rs) rs) (dmask ! j) = Inl e"
        by (rule undo_signal_error)
      with us Bj sh show ?thesis by simp
    next
      case (Inr b)
      then show ?thesis using that by blast
    qed
    from undo_signal_scaled [OF rb, of "?f rs"] us Bj sh
    have "us = map (\<lambda>v. v * ?f rs) rb" by simp
    with rs rb oj show ?thesis by blast
  qed
  from undo_batch_process_zero_outside [OF bwd] round show ?thesis by blast
qed

lemmas undo_defs = undo_batch_process_def undo_signal_def shape0_def

text \<open>
  A constant daytime trace of 4 on three samples, zero at night, resampled to four
  points: linear interpolation reproduces a constant trace without error, and the
  round trip returns 3.
\<close>

theorem undo_batch_process_roundtrip_counterexample:
  "batch_process [[0, 4, 4, 4, 0]] [[False, True, True, True, False]] 2 = Inr [[3, 3, 3, 3]]
   \<and> undo_batch_process [[3, 3, 3, 3]] [[False, True, True, True, False]] = Inr [[0, 3, 3, 3, 0]]
   \<and> [[0, 3, 3, 3, 0]] ! 0 ! 1 \<noteq> [[0, 4, 4, 4, 0 :: real]] ! 0 ! 1"
  by (simp add: resample_defs undo_defs upt_rec)


theorem undo_batch_process_roundtrip_witness:
  "batch_process [[0, 4, 4, 4, 0]] [[False, True, True, True, False]] 2 = Inr [[3, 3, 3, 3]]
   \<and> undo_batch_process [[3, 3, 3, 3]] [[False, True, True, True, False]] = Inr [[0, 3, 3, 3, 0]]
   \<and> length [[0, 3, 3, 3, 0 :: real]] = length [[False, True, True, True, False]]
   \<and> [[0, 3, 3, 3, 0 :: real]] ! 0 ! 4 = 0"
proof -
  let ?m = "[[False, True, True, True, False]]"
  have h1: "batch_process [[0, 4, 4, 4, 0]] ?m 2 = Inr [[3, 3, 3, 3]]"
    by (simp add: resample_defs upt_rec)
  have h2: "undo_batch_process [[3, 3, 3, 3]] ?m = Inr [[0, 3, 3, 3, 0]]"
    by (simp add: resample_defs undo_defs upt_rec)
  note R = undo_batch_process_roundtrip [OF h1 h2]
  from R have len: "length [[0, 3, 3, 3, 0 :: real]] = length ?m" by blast
  from R have "\<forall>j < length ?m. \<forall>i < length (?m ! j). \<not> ?m ! j ! i \<longrightarrow>
      [[0, 3, 3, 3, 0 :: real]] ! j ! i = 0" by blast
  then have "\<forall>i < length (?m ! 0). \<not> ?m ! 0 ! i \<longrightarrow> [[0, 3, 3, 3, 0 :: real]] ! 0 ! i = 0"
    by simp
  then have "[[0, 3, 3, 3, 0 :: real]] ! 0 ! 4 = 0" by simp
  with h1 h2 len show ?thesis by blast
qed

section \<open>Declination of the example days\<close>

lemma np_round_unique:
  assumes "real_of_int k - 1 / 2 < x" and "x < real_of_int k + 1 / 2"
  shows "np_round x = real_of_int k"
proof -
  have "\<lfloor>x\<rfloor> = k \<or> \<lfloor>x\<rfloor> = k - 1"
    using assms by linarith
  then show ?thesis
  proof
    assume f: "\<lfloor>x\<rfloor> = k"
    then have "x - real_of_int k < 1 / 2" using assms by linarith
    with f show ?thesis by (simp add: np_round_def Let_def)
  next
    assume f: "\<lfloor>x\<rfloor> = k - 1"
    then have "1 / 2 < x - real_of_int (k - 1)" using assms by simp
    with f show ?thesis by (simp add: np_round_def Let_def)
  qed
qed

lemma cos_small_angle: "24 / 25 < cos (pi / 730)"
proof -
  let ?y = "pi / 730"
  have y: "0 < ?y" "?y < 4 / 730" using pi_less_4 by simp_all
  have "\<bar>sin ?y\<bar> \<le> \<bar>?y\<bar>" by (rule abs_sin_x_le_abs_x)
  then have "(sin ?y)\<^sup>2 \<le> ?y\<^sup>2" by (simp only: abs_le_square_iff)
  also have "?y\<^sup>2 \<le> (4 / 730)\<^sup>2" using y by (intro power_mono) simp_all
  finally have s: "(sin ?y)\<^sup>2 \<le> (4 / 730)\<^sup>2" .
  have c2: "(cos ?y)\<^sup>2 = 1 - (sin ?y)\<^sup>2" by (rule cos_squared_eq)
  have pos: "0 < cos ?y" using y pi_gt_zero by (intro cos_gt_zero) simp_all
  show ?thesis
  proof (rule ccontr)
    assume "\<not> 24 / 25 < cos ?y"
    then have "cos ?y \<le> 24 / 25" by simp
    with pos have "(cos ?y)\<^sup>2 \<le> (24 / 25)\<^sup>2" by (intro power_mono) simp_all
    with c2 s show False by (simp add: power2_eq_square)
  qed
qed

lemma delta_cooper_81: "delta_cooper 81 = 0"
proof -
  have "deg2rad (360 * (284 + 81) / 365) = 2 * pi" by (simp add: deg2rad_def)
  then show ?thesis by (simp add: delta_cooper_def)
qed

lemma delta_cooper_172: "delta_cooper 172 = 23.45 * cos (pi / 730)"
proof -
  have "deg2rad (360 * (284 + 172) / 365) = (pi / 2 - pi / 730) + 2 * pi"
    by (simp add: deg2rad_def field_simps)
  then have "sin (deg2rad (360 * (284 + 172) / 365)) = sin (pi / 2 - pi / 730)"
    by (simp only: sin_periodic)
  also have "\<dots> = cos (pi / 730)" unfolding sin_diff by simp
  finally show ?thesis by (simp add: delta_cooper_def)
qed

lemma delta_cooper_355: "delta_cooper 355 = - (23.45 * cos (pi / 730))"
proof -
  have "deg2rad (360 * (284 + 355) / 365) = ((pi / 2 + pi / 730) + pi) + 2 * pi"
    by (simp add: deg2rad_def field_simps)
  then have "sin (deg2rad (360 * (284 + 355) / 365)) = sin ((pi / 2 + pi / 730) + pi)"
    by (simp only: sin_periodic)
  also have "\<dots> = - sin (pi / 2 + pi / 730)" by (simp only: sin_periodic_pi)
  also have "\<dots> = - cos (pi / 730)" unfolding sin_add by simp
  finally show ?thesis by (simp add: delta_cooper_def)
qed

lemma bucket_81: "my_round (delta_cooper 81) 1 = 0"
  by (simp add: my_round_def delta_cooper_81 np_round_def)

lemma bucket_172: "my_round (delta_cooper 172) 1 = 23"
proof -
  have "45 / 2 < 469 / 20 * cos (pi / 730)"
    using cos_small_angle by linarith
  then have lo: "23 - 1 / 2 < 23.45 * cos (pi / 730)" by simp
  have "469 / 20 * cos (pi / 730) < 47 / 2"
    using cos_le_one [of "pi / 730"] by linarith
  then have hi: "23.45 * cos (pi / 730) < 23 + 1 / 2" by simp
  from np_round_unique [of 23 "23.45 * cos (pi / 730)"] lo hi show ?thesis
    by (simp add: my_round_def delta_cooper_172)
qed

lemma bucket_355: "my_round (delta_cooper 355) 1 = - 23"
proof -
  have "469 / 20 * cos (pi / 730) < 47 / 2"
    using cos_le_one [of "pi / 730"] by linarith
  then have lo: "- 23 - 1 / 2 < - (23.45 * cos (pi / 730))" by simp
  have "45 / 2 < 469 / 20 * cos (pi / 730)"
    using cos_small_angle by linarith
  then have hi: "- (23.45 * cos (pi / 730)) < - 23 + 1 / 2" by simp
  from np_round_unique [of "- 23" "- (23.45 * cos (pi / 730))"] lo hi show ?thesis
    by (simp add: my_round_def delta_cooper_355)
qed


section \<open>The example installation, run\<close>

lemma example_batch:
  "batch_process (filled_data_matrix example_handler) (daytime example_handler) 3
     = Inr example_normalized"
  by (simp add: example_handler_def example_normalized_def resample_defs upt_rec)

lemma example_transform:
  "transform_data example_handler 3 = Inr (example_normalized, example_transformed)"
proof -
  have keys: "map (\<lambda>d. my_round (delta_cooper (real d)) 1) (day_of_year example_handler)
                = [23, 0, - 23]"
    by (simp add: example_handler_def bucket_81 bucket_172 bucket_355)
  have sel: "clear example_handler = [True, True, True]"
    by (simp add: example_handler_def)
  show ?thesis
    unfolding transform_data_def example_batch keys sel
    by (simp add: example_normalized_def example_transformed_def groupby_mean_def
        column_mean_def select_def upt_rec)
qed


lemmas osd_defs = osd_constraints_def osd_shape_def mat_shape_def all_entries_def madd_def
  msub_def vadd_def vsub_def diff_axis0_def diff_axis1_def vdiff_def

lemma funpow2: "(f ^^ 2) x = f (f x)"
  by (simp add: numeral_2_eq_2)

lemma funpow4: "(f ^^ 4) x = f (f (f (f x)))"
  by (simp add: eval_nat_numeral)

lemma example_shape: "length example_normalized = 3" "ncols example_normalized = 8"
  by (simp_all add: example_normalized_def ncols_def)

lemma example_make:
  "make_osd_problem (df_values example_transformed) = Inr example_problem"
  by (simp add: make_osd_problem_def example_transformed_def example_shape
      example_problem_def Let_def)

lemma example_feasible: "feasible example_problem example_vars"
  by (simp add: feasible_def example_problem_def example_vars_def example_normalized_def
      example_residual_def example_clear_sky_def example_shade_def osd_defs funpow2 funpow4)

lemma example_vars_sel:
  "residual example_vars = example_residual" "clear_sky example_vars = example_clear_sky"
  "shade example_vars = example_shade"
  by (simp_all add: example_vars_def)

lemma example_run:
  "run (feasible_point example_vars) 3 ''MOSEK'' (init example_handler)
     = \<lparr>calls = [TransformData 3, Solve ''MOSEK''], raised = None, after = example_state\<rparr>"
  by (simp add: run_def has_run_def init_def example_transform example_make
      feasible_point_def example_feasible publish_def example_state_def example_vars_sel)


section \<open>The analysis object: proofs\<close>

lemma publish_keeps:
  "osd_problem (publish s) = osd_problem s" "data_normalized (publish s) = data_normalized s"
  "data_transformed (publish s) = data_transformed s" "dh (publish s) = dh s"
  by (simp_all add: publish_def split: option.splits)

lemma has_run_publish: "has_run (publish s) = has_run s"
  by (simp add: has_run_def publish_keeps)

lemma publish_idem: "publish (publish s) = publish s"
  by (simp add: publish_def split: option.splits)

lemma run_returns_published:
  assumes "raised (run solve pwr name self) = None"
  shows "\<exists>s. after (run solve pwr name self) = publish s \<and> has_run s"
proof (cases "has_run self")
  case True
  then show ?thesis by (auto simp: run_def)
next
  case False
  show ?thesis
  proof (cases "transform_data (dh self) pwr")
    case (Inl e)
    with False assms show ?thesis by (simp add: run_def)
  next
    case (Inr p)
    obtain dn dt where p: "p = (dn, dt)" by (cases p)
    show ?thesis
    proof (cases "make_osd_problem (df_values dt)")
      case (Inl e)
      with False Inr p assms show ?thesis by (simp add: run_def Let_def)
    next
      case make: (Inr P)
      show ?thesis
      proof (cases "solve name P")
        case (SolverFailure msg)
        with False Inr p make assms show ?thesis by (simp add: run_def Let_def)
      next
        case (NoSolution st)
        with False Inr p make show ?thesis
          by (auto simp: run_def Let_def has_run_def intro!: exI)
      next
        case (Solution v)
        with False Inr p make show ?thesis
          by (auto simp: run_def Let_def has_run_def intro!: exI)
      qed
    qed
  qed
qed

text \<open>
  Claim C8. When a call of \<open>run\<close> has returned, the cached state is present, and
  every later call of \<open>run\<close>, whatever its arguments and whatever the solver would
  do, calls neither \<open>transform_data\<close> nor the solver and leaves the object, with
  its published components, as it was.
\<close>

theorem run_repeated_is_noop:
  assumes "raised (run solve pwr name self) = None"
  shows "has_run (after (run solve pwr name self))
         \<and> run solve' pwr' name' (after (run solve pwr name self))
             = \<lparr>calls = [], raised = None, after = after (run solve pwr name self)\<rparr>"
proof -
  from run_returns_published [OF assms] obtain s where
    s: "after (run solve pwr name self) = publish s" "has_run s" by blast
  then show ?thesis
    by (simp add: run_def has_run_publish publish_idem)
qed

theorem run_repeated_is_noop_witness:
  "raised (run (feasible_point example_vars) 3 ''MOSEK'' (init example_handler)) = None
   \<and> after (run (feasible_point example_vars) 3 ''MOSEK'' (init example_handler)) = example_state
   \<and> has_run example_state
   \<and> run (raising ''not called'') 8 ''ECOS'' example_state
       = \<lparr>calls = [], raised = None, after = example_state\<rparr>"
proof -
  have h: "raised (run (feasible_point example_vars) 3 ''MOSEK'' (init example_handler)) = None"
    by (simp add: example_run)
  have a: "after (run (feasible_point example_vars) 3 ''MOSEK'' (init example_handler)) = example_state"
    by (simp add: example_run)
  from run_repeated_is_noop [OF h, of "raising ''not called''" 8 "''ECOS''"] h a
  show ?thesis by simp
qed


text \<open>
  Claim C4, as the code has it. \<open>run\<close> assigns the normalized data, the transformed
  data and the problem before it calls the solver. When the solver raises, the
  SolverError leaves \<open>run\<close> with the solver's message and no component is assigned
  by that call, but \<open>has_run\<close> holds afterwards, and the next call of \<open>run\<close>
  solves nothing and publishes \<open>None\<close> for both components. When the solve ends
  without a solution and without raising (infeasible, unbounded), \<open>run\<close> returns
  normally, publishes \<open>None\<close> for both components, and \<open>has_run\<close> holds.
\<close>

theorem run_solver_failure:
  assumes "\<not> has_run self"
    and "transform_data (dh self) pwr = Inr (dn, dt)"
    and "make_osd_problem (df_values dt) = Inr P"
  shows "(\<forall>msg. solve name P = SolverFailure msg \<longrightarrow>
            raised (run solve pwr name self) = Some (SolverError msg)
          \<and> clear_sky_component (after (run solve pwr name self)) = clear_sky_component self
          \<and> shade_component (after (run solve pwr name self)) = shade_component self
          \<and> has_run (after (run solve pwr name self))
          \<and> run solve' pwr' name' (after (run solve pwr name self))
              = \<lparr>calls = [], raised = None,
                 after = (after (run solve pwr name self))
                   \<lparr>clear_sky_component := PyNone, shade_component := PyNone\<rparr>\<rparr>)
       \<and> (\<forall>st. solve name P = NoSolution st \<longrightarrow>
            raised (run solve pwr name self) = None
          \<and> clear_sky_component (after (run solve pwr name self)) = PyNone
          \<and> shade_component (after (run solve pwr name self)) = PyNone
          \<and> has_run (after (run solve pwr name self)))"
proof -
  from assms(3) have v: "var_value P = None"
    by (auto simp: make_osd_problem_def Let_def split: if_splits)
  show ?thesis
    using assms v
    by (auto simp: run_def Let_def has_run_def publish_def)
qed

text \<open>
  With the installation above and a solver that raises, \<open>run\<close> raises and afterwards
  \<open>has_run\<close> holds; with a solver that ends infeasible, \<open>run\<close> returns without an
  error and publishes \<open>None\<close>.
\<close>

lemma example_fresh: "\<not> has_run (init example_handler)" "dh (init example_handler) = example_handler"
  by (simp_all add: has_run_def init_def)

theorem run_solver_failure_counterexample:
  "raised (run (raising ''no convergence'') 3 ''MOSEK'' (init example_handler))
     = Some (SolverError ''no convergence'')
   \<and> has_run (after (run (raising ''no convergence'') 3 ''MOSEK'' (init example_handler)))
   \<and> raised (run (no_solution ''infeasible'') 3 ''MOSEK'' (init example_handler)) = None
   \<and> clear_sky_component
        (after (run (no_solution ''infeasible'') 3 ''MOSEK'' (init example_handler))) = PyNone
   \<and> has_run (after (run (no_solution ''infeasible'') 3 ''MOSEK'' (init example_handler)))"
  by (simp add: run_def init_def example_transform example_make raising_def
      no_solution_def has_run_def publish_def example_problem_def)

theorem run_solver_failure_witness:
  "\<not> has_run (init example_handler)
   \<and> transform_data (dh (init example_handler)) 3 = Inr (example_normalized, example_transformed)
   \<and> make_osd_problem (df_values example_transformed) = Inr example_problem
   \<and> raising ''no convergence'' ''MOSEK'' example_problem = SolverFailure ''no convergence''
   \<and> raised (run (raising ''no convergence'') 3 ''MOSEK'' (init example_handler))
       = Some (SolverError ''no convergence'')
   \<and> clear_sky_component (after (run (raising ''no convergence'') 3 ''MOSEK'' (init example_handler)))
       = NotSet
   \<and> has_run (after (run (raising ''no convergence'') 3 ''MOSEK'' (init example_handler)))"
proof -
  have h1: "\<not> has_run (init example_handler)" by (rule example_fresh)
  have h2: "transform_data (dh (init example_handler)) 3
              = Inr (example_normalized, example_transformed)"
    by (simp add: example_fresh example_transform)
  have h3: "make_osd_problem (df_values example_transformed) = Inr example_problem"
    by (rule example_make)
  have f: "raising ''no convergence'' ''MOSEK'' example_problem = SolverFailure ''no convergence''"
    by (simp add: raising_def)
  have c: "clear_sky_component (init example_handler) = NotSet"
    by (simp add: init_def)
  from run_solver_failure [OF h1 h2 h3, of "raising ''no convergence''" "''MOSEK''"] f c
  have "raised (run (raising ''no convergence'') 3 ''MOSEK'' (init example_handler))
       = Some (SolverError ''no convergence'')
   \<and> clear_sky_component (after (run (raising ''no convergence'') 3 ''MOSEK'' (init example_handler)))
       = NotSet
   \<and> has_run (after (run (raising ''no convergence'') 3 ''MOSEK'' (init example_handler)))"
    by simp
  with h1 h2 h3 f show ?thesis by blast
qed

section \<open>Yearly energy: proofs\<close>

lemma run_keeps_handler: "dh (after (run solve pwr name self)) = dh self"
  by (simp add: run_def Let_def publish_keeps
      split: sum.splits prod.splits solve_result.splits)

lemma select_subset: "set (select xs bs) \<subseteq> set xs"
  by (auto simp: select_def dest: set_zip_leftD)

lemma transform_data_keys:
  assumes "transform_data h pwr = Inr (dn, dt)"
  shows "set (df_index dt) \<subseteq> (\<lambda>d. my_round (delta_cooper (real d)) 1) ` set (day_of_year h)"
proof -
  let ?delta = "map (\<lambda>d. my_round (delta_cooper (real d)) 1) (day_of_year h)"
  from assms obtain normalized where
    "df_index dt = rev (map fst (groupby_mean (2 ^ pwr) (select (zip ?delta normalized) (clear h))))"
    by (auto simp: transform_data_def Let_def split: sum.splits if_splits)
  then have "set (df_index dt) = fst ` set (select (zip ?delta normalized) (clear h))"
    by (simp add: groupby_mean_def comp_def)
  also have "\<dots> \<subseteq> fst ` set (zip ?delta normalized)"
    using select_subset by (intro image_mono)
  also have "\<dots> \<subseteq> set ?delta"
    by (auto dest: set_zip_leftD)
  finally show ?thesis by simp
qed

lemma analyze_returns:
  assumes "raised (analyze_yearly_energy solve self0) = None"
  shows "\<exists>self dt a_loss a_clear f_loss f_clear avg.
      dh self = dh self0
    \<and> data_transformed self = Some dt
    \<and> shade_component self = Array a_loss
    \<and> clear_sky_component self = Array a_clear
    \<and> interp1d (df_index dt)
          (map (\<lambda>r. sum_list r * (data_sampling (dh self0) / 60)) a_loss) = Inr f_loss
    \<and> interp1d (df_index dt)
          (map (\<lambda>r. sum_list r * (data_sampling (dh self0) / 60)) a_clear) = Inr f_clear
    \<and> after (analyze_yearly_energy solve self0) =
          self\<lparr>daily_shade_loss := Some (map (call_linear (fst f_loss) (snd f_loss)) year_declinations),
               daily_clear_energy := Some (map (call_linear (fst f_clear) (snd f_clear)) year_declinations),
               daily_modeled_energy :=
                 Some (vsub (map (call_linear (fst f_clear) (snd f_clear)) year_declinations)
                            (map (call_linear (fst f_loss) (snd f_loss)) year_declinations)),
               avg_energy := Some avg\<rparr>"
proof -
  define r where "r = (if \<not> has_run self0 then run solve 8 ''MOSEK'' self0
               else \<lparr>calls = [], raised = None, after = self0\<rparr>)"
  have dh: "dh (after r) = dh self0"
    by (simp add: r_def run_keeps_handler)
  have unfold: "analyze_yearly_energy solve self0 =
     (case raised r of
           Some e \<Rightarrow> r
         | None \<Rightarrow>
             (let self = after r; scale = data_sampling (dh self) / 60
              in case data_transformed self of
                   None \<Rightarrow> r\<lparr>raised := Some AttributeError\<rparr>
                 | Some dt \<Rightarrow>
              (case row_energy (shade_component self) scale of
                   Inl e \<Rightarrow> r\<lparr>raised := Some e\<rparr>
                 | Inr loss_rows \<Rightarrow>
              (case interp1d (df_index dt) loss_rows of
                   Inl e \<Rightarrow> r\<lparr>raised := Some e\<rparr>
                 | Inr f_loss \<Rightarrow>
              (case row_energy (clear_sky_component self) scale of
                   Inl e \<Rightarrow> r\<lparr>raised := Some e\<rparr>
                 | Inr clear_rows \<Rightarrow>
              (case interp1d (df_index dt) clear_rows of
                   Inl e \<Rightarrow> r\<lparr>raised := Some e\<rparr>
                 | Inr f_clear \<Rightarrow>
              (case yearly_avg_energy (dh self) scale of
                   Inl e \<Rightarrow> r\<lparr>raised := Some e\<rparr>
                 | Inr avg \<Rightarrow>
              (case interp_call True f_loss year_declinations of
                   Inl e \<Rightarrow> r\<lparr>raised := Some e\<rparr>
                 | Inr loss \<Rightarrow>
              (case interp_call True f_clear year_declinations of
                   Inl e \<Rightarrow> r\<lparr>raised := Some e\<rparr>
                 | Inr clr \<Rightarrow>
                     r\<lparr>after := self\<lparr>daily_shade_loss := Some loss,
                                      daily_clear_energy := Some clr,
                                      daily_modeled_energy := Some (vsub clr loss),
                                      avg_energy := Some avg\<rparr>\<rparr>)))))))))"
    unfolding analyze_yearly_energy_def r_def Let_def ..
  let ?scale = "data_sampling (dh self0) / 60"
  from assms have r0: "raised r = None"
    unfolding unfold by (cases "raised r") simp_all
  from assms r0 obtain dt where dt: "data_transformed (after r) = Some dt"
    unfolding unfold by (cases "data_transformed (after r)") (simp_all add: Let_def)
  from assms r0 dt obtain loss_rows where
    lr: "row_energy (shade_component (after r)) ?scale = Inr loss_rows"
    unfolding unfold dh
    by (cases "row_energy (shade_component (after r)) ?scale") (simp_all add: Let_def dh)
  from lr obtain a_loss where al: "shade_component (after r) = Array a_loss"
    and lr': "loss_rows = map (\<lambda>r. sum_list r * ?scale) a_loss"
    by (auto simp: row_energy_def split: published.splits)
  from assms r0 dt lr obtain f_loss where fl: "interp1d (df_index dt) loss_rows = Inr f_loss"
    unfolding unfold
    by (cases "interp1d (df_index dt) loss_rows") (simp_all add: Let_def dh)
  from assms r0 dt lr fl obtain clear_rows where
    cr: "row_energy (clear_sky_component (after r)) ?scale = Inr clear_rows"
    unfolding unfold
    by (cases "row_energy (clear_sky_component (after r)) ?scale") (simp_all add: Let_def dh)
  from cr obtain a_clear where ac: "clear_sky_component (after r) = Array a_clear"
    and cr': "clear_rows = map (\<lambda>r. sum_list r * ?scale) a_clear"
    by (auto simp: row_energy_def split: published.splits)
  from assms r0 dt lr fl cr obtain f_clear where
    fc: "interp1d (df_index dt) clear_rows = Inr f_clear"
    unfolding unfold
    by (cases "interp1d (df_index dt) clear_rows") (simp_all add: Let_def dh)
  from assms r0 dt lr fl cr fc obtain avg where
    av: "yearly_avg_energy (dh self0) ?scale = Inr avg"
    unfolding unfold
    by (cases "yearly_avg_energy (dh self0) ?scale") (simp_all add: Let_def dh)
  have ic: "interp_call True f x = Inr (map (call_linear (fst f) (snd f)) x)" for f x
    by (cases f) (simp add: interp_call_def)
  have "after (analyze_yearly_energy solve self0) =
          (after r)\<lparr>daily_shade_loss := Some (map (call_linear (fst f_loss) (snd f_loss)) year_declinations),
               daily_clear_energy := Some (map (call_linear (fst f_clear) (snd f_clear)) year_declinations),
               daily_modeled_energy :=
                 Some (vsub (map (call_linear (fst f_clear) (snd f_clear)) year_declinations)
                            (map (call_linear (fst f_loss) (snd f_loss)) year_declinations)),
               avg_energy := Some avg\<rparr>"
    unfolding unfold using r0 dt lr fl cr fc av by (simp add: Let_def dh ic)
  with dh dt al ac fl fc lr' cr' show ?thesis by blast
qed


lemma vsub_map: "vsub (map f xs) (map g xs) = map (\<lambda>x. f x - g x) xs"
  by (induction xs) (simp_all add: vsub_def)

text \<open>
  Claim C9. When \<open>analyze_yearly_energy\<close> returns, \<open>daily_shade_loss\<close> and
  \<open>daily_clear_energy\<close> are the 365 values of the two interpolating functions (built
  over the declination index from the row sums of the shade and the clear-sky component
  times \<open>data_sampling / 60\<close>) at the declination of the days of year 1 to 365, and
  \<open>daily_modeled_energy\<close> is their difference, clear minus shade, day by day. The
  declination is \<open>delta_cooper\<close>, that is 23.45 sin(360 (284 + d) / 365) with the angle
  in degrees, and the bucket keys of \<open>transform_data\<close> are the roundings of the same
  function on the days of the index.
\<close>

theorem analyze_yearly_energy_by_declination:
  assumes "raised (analyze_yearly_energy solve self0) = None"
  shows "delta_cooper = (\<lambda>d. 23.45 * sin (360 * (284 + d) / 365 * pi / 180))
    \<and> (\<exists>dt a_loss a_clear f_loss f_clear.
        data_transformed (after (analyze_yearly_energy solve self0)) = Some dt
      \<and> shade_component (after (analyze_yearly_energy solve self0)) = Array a_loss
      \<and> clear_sky_component (after (analyze_yearly_energy solve self0)) = Array a_clear
      \<and> interp1d (df_index dt)
            (map (\<lambda>r. sum_list r * (data_sampling (dh self0) / 60)) a_loss) = Inr f_loss
      \<and> interp1d (df_index dt)
            (map (\<lambda>r. sum_list r * (data_sampling (dh self0) / 60)) a_clear) = Inr f_clear
      \<and> daily_shade_loss (after (analyze_yearly_energy solve self0))
          = Some (map (\<lambda>d. call_linear (fst f_loss) (snd f_loss) (delta_cooper (real d))) [1..<366])
      \<and> daily_clear_energy (after (analyze_yearly_energy solve self0))
          = Some (map (\<lambda>d. call_linear (fst f_clear) (snd f_clear) (delta_cooper (real d))) [1..<366])
      \<and> daily_modeled_energy (after (analyze_yearly_energy solve self0))
          = Some (map (\<lambda>d. call_linear (fst f_clear) (snd f_clear) (delta_cooper (real d))
                            - call_linear (fst f_loss) (snd f_loss) (delta_cooper (real d)))
                    [1..<366])
      \<and> length (map (\<lambda>d. delta_cooper (real d)) [1..<366]) = 365)
    \<and> (\<forall>h pwr dn dt. transform_data h pwr = Inr (dn, dt) \<longrightarrow>
          set (df_index dt) \<subseteq> (\<lambda>d. 1 * np_round (delta_cooper (real d) / 1)) ` set (day_of_year h))"
proof (intro conjI)
  show "delta_cooper = (\<lambda>d. 23.45 * sin (360 * (284 + d) / 365 * pi / 180))"
    by (rule ext) (simp add: delta_cooper_def deg2rad_def)
next
  from analyze_returns [OF assms] obtain self dt a_loss a_clear f_loss f_clear avg where
    dt: "data_transformed self = Some dt" and
    al: "shade_component self = Array a_loss" and
    ac: "clear_sky_component self = Array a_clear" and
    fl: "interp1d (df_index dt)
          (map (\<lambda>r. sum_list r * (data_sampling (dh self0) / 60)) a_loss) = Inr f_loss" and
    fc: "interp1d (df_index dt)
          (map (\<lambda>r. sum_list r * (data_sampling (dh self0) / 60)) a_clear) = Inr f_clear" and
    after: "after (analyze_yearly_energy solve self0) =
          self\<lparr>daily_shade_loss := Some (map (call_linear (fst f_loss) (snd f_loss)) year_declinations),
               daily_clear_energy := Some (map (call_linear (fst f_clear) (snd f_clear)) year_declinations),
               daily_modeled_energy :=
                 Some (vsub (map (call_linear (fst f_clear) (snd f_clear)) year_declinations)
                            (map (call_linear (fst f_loss) (snd f_loss)) year_declinations)),
               avg_energy := Some avg\<rparr>"
    by blast
  have "data_transformed (after (analyze_yearly_energy solve self0)) = Some dt"
    "shade_component (after (analyze_yearly_energy solve self0)) = Array a_loss"
    "clear_sky_component (after (analyze_yearly_energy solve self0)) = Array a_clear"
    "daily_shade_loss (after (analyze_yearly_energy solve self0))
          = Some (map (\<lambda>d. call_linear (fst f_loss) (snd f_loss) (delta_cooper (real d))) [1..<366])"
    "daily_clear_energy (after (analyze_yearly_energy solve self0))
          = Some (map (\<lambda>d. call_linear (fst f_clear) (snd f_clear) (delta_cooper (real d))) [1..<366])"
    "daily_modeled_energy (after (analyze_yearly_energy solve self0))
          = Some (map (\<lambda>d. call_linear (fst f_clear) (snd f_clear) (delta_cooper (real d))
                            - call_linear (fst f_loss) (snd f_loss) (delta_cooper (real d)))
                    [1..<366])"
    unfolding after using dt al ac
    by (simp_all add: year_declinations_def vsub_map comp_def)
  moreover have "length (map (\<lambda>d. delta_cooper (real d)) [1..<366]) = 365" by simp
  ultimately show "\<exists>dt a_loss a_clear f_loss f_clear.
        data_transformed (after (analyze_yearly_energy solve self0)) = Some dt
      \<and> shade_component (after (analyze_yearly_energy solve self0)) = Array a_loss
      \<and> clear_sky_component (after (analyze_yearly_energy solve self0)) = Array a_clear
      \<and> interp1d (df_index dt)
            (map (\<lambda>r. sum_list r * (data_sampling (dh self0) / 60)) a_loss) = Inr f_loss
      \<and> interp1d (df_index dt)
            (map (\<lambda>r. sum_list r * (data_sampling (dh self0) / 60)) a_clear) = Inr f_clear
      \<and> daily_shade_loss (after (analyze_yearly_energy solve self0))
          = Some (map (\<lambda>d. call_linear (fst f_loss) (snd f_loss) (delta_cooper (real d))) [1..<366])
      \<and> daily_clear_energy (after (analyze_yearly_energy solve self0))
          = Some (map (\<lambda>d. call_linear (fst f_clear) (snd f_clear) (delta_cooper (real d))) [1..<366])
      \<and> daily_modeled_energy (after (analyze_yearly_energy solve self0))
          = Some (map (\<lambda>d. call_linear (fst f_clear) (snd f_clear) (delta_cooper (real d))
                            - call_linear (fst f_loss) (snd f_loss) (delta_cooper (real d)))
                    [1..<366])
      \<and> length (map (\<lambda>d. delta_cooper (real d)) [1..<366]) = 365"
    using fl fc by blast
next
  show "\<forall>h pwr dn dt. transform_data h pwr = Inr (dn, dt) \<longrightarrow>
          set (df_index dt) \<subseteq> (\<lambda>d. 1 * np_round (delta_cooper (real d) / 1)) ` set (day_of_year h)"
    using transform_data_keys by (simp add: my_round_def)
qed

lemma example_state_sel:
  "has_run example_state" "dh example_state = example_handler"
  "data_transformed example_state = Some example_transformed"
  "shade_component example_state = Array example_shade"
  "clear_sky_component example_state = Array example_clear_sky"
  by (simp_all add: example_state_def has_run_def)

lemma example_analyze:
  "raised (analyze_yearly_energy solve example_state) = None"
  by (simp add: analyze_yearly_energy_def example_state_sel Let_def row_energy_def
      example_transformed_def example_shade_def example_clear_sky_def interp1d_def
      yearly_avg_energy_def example_handler_def interp_call_def)

lemma example_analyze_keeps:
  "data_transformed (after (analyze_yearly_energy solve example_state)) = Some example_transformed"
  "shade_component (after (analyze_yearly_energy solve example_state)) = Array example_shade"
  "clear_sky_component (after (analyze_yearly_energy solve example_state)) = Array example_clear_sky"
  by (simp_all add: analyze_yearly_energy_def example_state_sel Let_def row_energy_def
      example_transformed_def example_shade_def example_clear_sky_def interp1d_def
      yearly_avg_energy_def example_handler_def interp_call_def)

theorem analyze_yearly_energy_by_declination_witness:
  "raised (analyze_yearly_energy (raising ''not called'') example_state) = None
   \<and> daily_clear_energy (after (analyze_yearly_energy (raising ''not called'') example_state))
       = Some (map (\<lambda>d. call_linear [- 23, 0, 23] [9 / 8, 3 / 4, 3 / 8] (delta_cooper (real d)))
                 [1..<366])
   \<and> daily_shade_loss (after (analyze_yearly_energy (raising ''not called'') example_state))
       = Some (map (\<lambda>d. call_linear [- 23, 0, 23] [0, 0, 0] (delta_cooper (real d))) [1..<366])"
proof -
  let ?R = "analyze_yearly_energy (raising ''not called'') example_state"
  have h: "raised ?R = None" by (rule example_analyze)
  from analyze_yearly_energy_by_declination [OF h]
  obtain dt a_loss a_clear f_loss f_clear where
    dt: "data_transformed (after ?R) = Some dt" and
    al: "shade_component (after ?R) = Array a_loss" and
    ac: "clear_sky_component (after ?R) = Array a_clear" and
    fl: "interp1d (df_index dt)
          (map (\<lambda>r. sum_list r * (data_sampling (dh example_state) / 60)) a_loss) = Inr f_loss" and
    fc: "interp1d (df_index dt)
          (map (\<lambda>r. sum_list r * (data_sampling (dh example_state) / 60)) a_clear) = Inr f_clear" and
    loss: "daily_shade_loss (after ?R)
          = Some (map (\<lambda>d. call_linear (fst f_loss) (snd f_loss) (delta_cooper (real d))) [1..<366])" and
    clr: "daily_clear_energy (after ?R)
          = Some (map (\<lambda>d. call_linear (fst f_clear) (snd f_clear) (delta_cooper (real d))) [1..<366])"
    by blast
  note same = example_analyze_keeps [of "raising ''not called''"]
  from dt al ac same have eq: "dt = example_transformed" "a_loss = example_shade"
    "a_clear = example_clear_sky" by simp_all
  from fl have "f_loss = ([- 23, 0, 23], [0, 0, 0])"
    unfolding eq
    by (simp add: example_transformed_def example_shade_def interp1d_def)
  moreover from fc have "f_clear = ([- 23, 0, 23], [9 / 8, 3 / 4, 3 / 8])"
    unfolding eq
    by (simp add: example_transformed_def example_clear_sky_def interp1d_def example_state_sel
        example_handler_def)
  ultimately show ?thesis using h loss clr by simp
qed

section \<open>The shade separation problem: proofs\<close>


































section \<open>Soiling: the index set\<close>


lemma select_Cons: "select (x # xs) (b # bs) = (if b then x # select xs bs else select xs bs)"
  by (simp add: select_def)

lemma select_Nil: "select [] bs = []" "select xs [] = []"
  by (simp_all add: select_def)

lemma select_eq_iff:
  "length xs = length bs \<Longrightarrow> length bs = length ys \<Longrightarrow>
     (select xs bs = map Some (select ys bs)) = (\<forall>i < length bs. bs ! i \<longrightarrow> xs ! i = Some (ys ! i))"
proof (induction xs bs ys rule: list_induct3)
  case Nil
  then show ?case by (simp add: select_Nil)
next
  case (Cons x xs b bs y ys)
  then show ?case
    by (auto simp: select_Cons All_less_Suc2 nth_Cons split: nat.splits)
qed

lemma vadd_length: "length (vadd a b) = min (length a) (length b)"
  by (simp add: vadd_def)

lemma vadd_nth: "i < length a \<Longrightarrow> i < length b \<Longrightarrow> vadd a b ! i = a ! i + b ! i"
  by (simp add: vadd_def)

lemma logical_and_nan:
  assumes "logical_and ix (map (\<lambda>x. \<not> isnan x) observed) = Inr index_set" "length observed \<noteq> 1"
  shows "length index_set = length observed \<and> (\<forall>i < length observed. index_set ! i \<longrightarrow> observed ! i \<noteq> None)"
  using assms by (auto simp: logical_and_def isnan_def split: if_splits)


lemma effective_index_set_facts:
  assumes "effective_index_set observed index_set0 = Inr index_set" and "3 \<le> length observed"
  shows "length index_set = length observed"
    and "\<forall>i < length observed. index_set ! i \<longrightarrow> observed ! i \<noteq> None"
    and "index_set0 = None \<longrightarrow> (\<forall>i < length observed. index_set ! i = (observed ! i \<noteq> None))"
    and "\<forall>ix. index_set0 = Some ix \<and> length ix = length observed \<longrightarrow>
           (\<forall>i < length observed. index_set ! i = (ix ! i \<and> observed ! i \<noteq> None))"
  using assms
  by (auto simp: effective_index_set_def logical_and_def isnan_def split: option.splits if_splits)

section \<open>Soiling: the solved components\<close>

lemma soiling_loop_last:
  "soiling_loop solve observed index_set a k w zero_set vals = Inr (Some v) \<Longrightarrow>
     vals = Some v \<or>
     (\<exists>w' zero_set'. solve (solver a) (soiling_problem observed index_set a w' zero_set') = Solution v)"
proof (induction k arbitrary: w zero_set vals)
  case 0
  then show ?case by simp
next
  case (Suc k)
  from Suc.prems obtain u where
    u: "solve (solver a) (soiling_problem observed index_set a w zero_set) = Solution u" and
    rest: "soiling_loop solve observed index_set a k (reweight u) (flat_set u) (Some u) = Inr (Some v)"
    by (auto split: solve_result.splits)
  from Suc.IH [OF rest] show ?case
  proof
    assume "Some u = Some v"
    with u show ?thesis by auto
  next
    assume "\<exists>w' zero_set'. solve (solver a) (soiling_problem observed index_set a w' zero_set') = Solution v"
    then show ?thesis by blast
  qed
qed

lemma soiling_seperation_solution:
  assumes "soiling_seperation solve observed index_set0 a = Inr (r1, r2, r3, rr)"
  shows "\<exists>index_set w zero_set v.
           solve (solver a) (soiling_problem observed index_set a w zero_set) = Solution v
         \<and> r1 = s1 v \<and> r2 = take (length observed) (s2 v) \<and> r3 = s3 v \<and> rr = sr v"
proof -
  from assms obtain index_set v where
    loop: "soiling_loop solve observed index_set a (iterations a)
             (replicate (length observed - 2) 1) (replicate (length observed - 1) False) None
           = Inr (Some v)" and
    r: "r1 = s1 v" "r2 = take (length observed) (s2 v)" "r3 = s3 v" "rr = sr v"
    by (auto simp: soiling_seperation_def Let_def split: sum.splits if_splits option.splits)
  from soiling_loop_last [OF loop] r show ?thesis by blast
qed

lemma v2_loop_last:
  "v2_loop solve observed known wts a k w vals = Inr (Some v) \<Longrightarrow>
     vals = Some v \<or> (\<exists>w'. solve ''MOSEK'' (v2_problem observed known wts a w') = Solution v)"
proof (induction k arbitrary: w vals)
  case 0
  then show ?case by simp
next
  case (Suc k)
  from Suc.prems obtain u where
    u: "solve ''MOSEK'' (v2_problem observed known wts a w) = Solution u" and
    rest: "v2_loop solve observed known wts a k (v2_reweight u) (Some u) = Inr (Some v)"
    by (auto split: solve_result.splits)
  from Suc.IH [OF rest] show ?case
  proof
    assume "Some u = Some v"
    with u show ?thesis by auto
  next
    assume "\<exists>w'. solve ''MOSEK'' (v2_problem observed known wts a w') = Solution v"
    then show ?thesis by blast
  qed
qed

lemma v2_solution:
  assumes "soiling_seperation_algorithm_v2 solve observed a = Inr (q1, q2, q3, q4)"
  shows "\<exists>known wts w v.
           solve ''MOSEK'' (v2_problem observed known wts a w) = Solution v
         \<and> q1 = v2_s1 v \<and> q2 = v2_s2 v \<and> q3 = v2_s3 v \<and> q4 = v2_s4 v"
proof -
  from assms obtain known wts v where
    loop: "v2_loop solve observed known wts a (v2_iterations a)
             (replicate (length observed - 2) 1) None = Inr (Some v)" and
    r: "q1 = v2_s1 v" "q2 = v2_s2 v" "q3 = v2_s3 v" "q4 = v2_s4 v"
    by (auto simp: soiling_seperation_algorithm_v2_def Let_def
        split: sum.splits if_splits option.splits)
  from v2_loop_last [OF loop] r show ?thesis by blast
qed

lemma soiling_feasible_facts:
  assumes "feasible (soiling_problem observed index_set a w zero_set) v"
  shows "length (s1 v) = length observed" "length (s2 v) = max (length observed) 367"
    and "list_all (\<lambda>x. x = 0) (vsub (drop 365 (s2 v)) (take (length (s2 v) - 365) (s2 v)))"
    and "sum_list (take 365 (s2 v)) = 0"
    and "list_all (\<lambda>x. x \<le> soiling_max a) (s1 v)"
    and "real (length observed) < 0.75 * 365 \<Longrightarrow> list_all (\<lambda>x. x = 0) (s2 v)"
  using assms by (auto simp: feasible_def soiling_problem_def Let_def)


lemma vsub_nth: "i < length a \<Longrightarrow> i < length b \<Longrightarrow> vsub a b ! i = a ! i - b ! i"
  by (simp add: vsub_def)

lemma all_zero_replicate: "list_all (\<lambda>x. x = (0::real)) xs \<Longrightarrow> xs = replicate (length xs) 0"
  by (induction xs) simp_all

lemma soiling_loop_returns:
  assumes "\<forall>name P. \<exists>v. solve name P = Solution v"
  shows "\<exists>r. soiling_loop solve observed index_set a k w zero_set vals = Inr r
             \<and> (0 < k \<or> vals \<noteq> None \<longrightarrow> r \<noteq> None)"
proof (induction k arbitrary: w zero_set vals)
  case 0
  then show ?case by simp
next
  case (Suc k)
  from assms obtain u where
    u: "solve (solver a) (soiling_problem observed index_set a w zero_set) = Solution u"
    by blast
  from Suc.IH [of "reweight u" "flat_set u" "Some u"] u show ?case by auto
qed

lemma soiling_seperation_returns:
  assumes "\<forall>name P. \<exists>v. solve name P = Solution v"
    and "3 \<le> length observed" and "0 < iterations a"
    and "case index_set0 of None \<Rightarrow> True | Some ix \<Rightarrow> length ix = length observed"
  shows "\<exists>r. soiling_seperation solve observed index_set0 a = Inr r"
proof -
  from assms(4) obtain index_set where
    eff: "effective_index_set observed index_set0 = Inr index_set"
    by (auto simp: effective_index_set_def logical_and_def split: option.splits)
  from soiling_loop_returns [OF assms(1), of observed index_set a "iterations a"
      "replicate (length observed - 2) 1" "replicate (length observed - 1) False" None] assms(3)
  obtain v where "soiling_loop solve observed index_set a (iterations a)
      (replicate (length observed - 2) 1) (replicate (length observed - 1) False) None
      = Inr (Some v)"
    by auto
  with eff assms(2) show ?thesis
    by (simp add: soiling_seperation_def Let_def)
qed

text \<open>
  Claim C5, as the code has it. With a solver whose answers satisfy the constraints,
  the seasonal component that \<open>soiling_seperation\<close> returns is as long as the
  series and repeats with period 365; its first 365 entries sum to zero when the series
  has at least 365 entries; and it is zero throughout when the series is shorter than
  0.75 times 365. A short series raises nothing by itself: whenever the solver answers
  every problem, the series has at least three entries, there is at least one
  iteration and the index set fits, the call returns.
\<close>

theorem seasonal_component_periodic:
  assumes "sound solve"
    and "soiling_seperation solve observed index_set0 a = Inr (r1, r2, r3, rr)"
  shows "length r2 = length observed
       \<and> (\<forall>t. t + 365 < length observed \<longrightarrow> r2 ! (t + 365) = r2 ! t)
       \<and> (365 \<le> length observed \<longrightarrow> sum_list (take 365 r2) = 0)
       \<and> (real (length observed) < 0.75 * 365 \<longrightarrow> r2 = replicate (length observed) 0)
       \<and> ((\<forall>name P. \<exists>v. solve' name P = Solution v) \<and> 3 \<le> length observed
            \<and> 0 < iterations a
            \<and> (case index_set0 of None \<Rightarrow> True | Some ix \<Rightarrow> length ix = length observed)
           \<longrightarrow> (\<exists>r. soiling_seperation solve' observed index_set0 a = Inr r))"
proof -
  let ?n = "length observed"
  from soiling_seperation_solution [OF assms(2)] obtain index_set w zero_set v where
    sol: "solve (solver a) (soiling_problem observed index_set a w zero_set) = Solution v" and
    r2: "r2 = take ?n (s2 v)"
    by blast
  from assms(1) sol have feas: "feasible (soiling_problem observed index_set a w zero_set) v"
    by (auto simp: sound_def)
  note F = soiling_feasible_facts [OF feas]
  have len: "length r2 = ?n" using r2 F(2) by simp
  have per: "r2 ! (t + 365) = r2 ! t" if t: "t + 365 < ?n" for t
  proof -
    let ?d = "vsub (drop 365 (s2 v)) (take (length (s2 v) - 365) (s2 v))"
    have tl: "t < length (s2 v) - 365" using t F(2) by simp
    then have "?d ! t = s2 v ! (365 + t) - s2 v ! t"
      by (simp add: vsub_nth)
    moreover have "?d ! t = 0"
      using F(3) tl by (simp add: list_all_length vsub_def)
    ultimately have "s2 v ! (t + 365) = s2 v ! t" by (simp add: add.commute)
    then show ?thesis using t r2 by simp
  qed
  have zsum: "sum_list (take 365 r2) = 0" if "365 \<le> ?n"
    using that r2 F(4) by (simp add: min_def)
  have deg: "r2 = replicate ?n 0" if short: "real ?n < 0.75 * 365"
  proof -
    from F(6) [OF short] have "list_all (\<lambda>x. x = 0) (take ?n (s2 v))"
      by (auto simp: list_all_iff dest: in_set_takeD)
    from all_zero_replicate [OF this] show ?thesis using r2 len by simp
  qed
  from len per zsum deg soiling_seperation_returns [of solve' observed a index_set0]
  show ?thesis by blast
qed

text \<open>
  Claim C6, as the code has it. With a solver whose answers satisfy the constraints,
  the soiling component returned by \<open>soiling_seperation\<close> is at most
  \<open>soiling_max\<close> everywhere, and the soiling component returned by
  \<open>soiling_seperation_algorithm_v2\<close> is at most zero everywhere.
\<close>

theorem soiling_trend_cap:
  "(sound solve \<and> soiling_seperation solve observed index_set0 a = Inr (r1, r2, r3, rr)
      \<longrightarrow> list_all (\<lambda>x. x \<le> soiling_max a) r1)
   \<and> (sound solve2 \<and> soiling_seperation_algorithm_v2 solve2 observed2 a2 = Inr (q1, q2, q3, q4)
      \<longrightarrow> list_all (\<lambda>x. x \<le> 0) q3)"
proof (intro conjI impI)
  assume h: "sound solve \<and> soiling_seperation solve observed index_set0 a = Inr (r1, r2, r3, rr)"
  from soiling_seperation_solution [of solve observed index_set0 a r1 r2 r3 rr] h
  obtain index_set w zero_set v where
    sol: "solve (solver a) (soiling_problem observed index_set a w zero_set) = Solution v" and
    r1: "r1 = s1 v"
    by blast
  from h sol have "feasible (soiling_problem observed index_set a w zero_set) v"
    by (auto simp: sound_def)
  from soiling_feasible_facts(5) [OF this] r1
  show "list_all (\<lambda>x. x \<le> soiling_max a) r1" by simp
next
  assume h: "sound solve2 \<and> soiling_seperation_algorithm_v2 solve2 observed2 a2 = Inr (q1, q2, q3, q4)"
  from v2_solution [of solve2 observed2 a2 q1 q2 q3 q4] h
  obtain known wts w v where
    sol: "solve2 ''MOSEK'' (v2_problem observed2 known wts a2 w) = Solution v" and
    q3: "q3 = v2_s3 v"
    by blast
  from h sol have "feasible (v2_problem observed2 known wts a2 w) v"
    by (auto simp: sound_def)
  then show "list_all (\<lambda>x. x \<le> 0) q3"
    using q3 by (simp add: feasible_def v2_problem_def Let_def)
qed


lemma vadd_replicate: "vadd (replicate n a) (replicate n b) = replicate n (a + b)"
  by (simp add: vadd_def)

lemma vsub_replicate: "vsub (replicate n a) (replicate n b) = replicate n (a - b)"
  by (simp add: vsub_def)

lemma select_replicate_True: "select (replicate n x) (replicate n True) = replicate n x"
  by (simp add: select_def filter_replicate)

lemma vdiff_replicate: "vdiff (replicate n c) = replicate (n - 1) 0"
  by (simp add: vdiff_def butlast_conv_take vsub_replicate)

lemma list_all_select: "list_all p xs \<Longrightarrow> list_all p (select xs bs)"
  using select_subset [of xs bs] by (auto simp: list_all_iff)

lemma list_all_replicate: "list_all p (replicate n x) = (n = 0 \<or> p x)"
  by (cases n) (auto simp: list_all_iff)

lemma norm1_vmul_zero: "list_all (\<lambda>x. x = 0) d \<Longrightarrow> norm1 (vmul w d) = 0"
proof (induction w arbitrary: d)
  case Nil
  then show ?case by (simp add: norm1_def vmul_def)
next
  case (Cons a w)
  then show ?case by (cases d) (simp_all add: norm1_def vmul_def)
qed

lemma sum_list_map_nonneg:
  fixes f :: "'a \<Rightarrow> real"
  shows "(\<And>x. x \<in> set xs \<Longrightarrow> 0 \<le> f x) \<Longrightarrow> 0 \<le> sum_list (map f xs)"
  by (rule sum_list_nonneg) auto

lemma soiling_objective_nonneg:
  assumes "0 \<le> tau a" "tau a \<le> 1" "0 \<le> c1 a" "0 \<le> c2 a" "0 \<le> c3 a" "soiling_max a \<le> 1"
    and feas: "feasible (soiling_problem observed index_set a w zero_set) u"
  shows "0 \<le> objective (soiling_problem observed index_set a w zero_set) u"
proof -
  have t1: "0 \<le> sum_list (map (\<lambda>r. tau a * cvx_pos r + (1 - tau a) * cvx_neg r) (sr u))"
    using assms(1,2) by (intro sum_list_map_nonneg) (simp add: cvx_pos_def cvx_neg_def)
  have t2: "0 \<le> c3 a * norm2 ((vdiff ^^ 2) (take (length observed) (s2 u)))"
    using assms(5) by (simp add: norm2_def sum_list_map_nonneg)
  have t3: "0 \<le> c1 a * norm1 (vmul w ((vdiff ^^ 2) (s1 u)))"
    using assms(3) by (simp add: norm1_def sum_list_map_nonneg)
  from soiling_feasible_facts(5) [OF feas] assms(6)
  have "\<And>x. x \<in> set (s1 u) \<Longrightarrow> 0 \<le> 1 - x"
    by (auto simp: list_all_iff)
  then have t4: "0 \<le> c2 a * sum_list (map (\<lambda>x. 1 - x) (s1 u))"
    using assms(4) by (simp add: sum_list_map_nonneg)
  from t1 t2 t3 t4 show ?thesis
    by (simp add: soiling_problem_def Let_def)
qed

lemma exact_optimal_point: "exact (optimal_point v)"
  by (auto simp: exact_def optimal_point_def split: if_splits)

lemma sound_optimal_point: "sound (optimal_point v)"
  by (auto simp: sound_def optimal_point_def optimal_def split: if_splits)

lemma constant_point_optimal:
  assumes n: "3 \<le> n"
    and seas: "length seas = max n 367" "take n seas = replicate n c"
      "list_all (\<lambda>x. x = 0) (vsub (drop 365 seas) (take (length seas - 365) seas))"
      "sum_list (take 365 seas) = 0"
      "real n < 0.75 * 365 \<longrightarrow> list_all (\<lambda>x. x = 0) seas"
  shows "optimal (soiling_problem (replicate n (Some (1 + c))) (replicate n True) soiling_defaults
                    w zero_set)
           \<lparr>s1 = replicate n 1, s2 = seas, s3 = replicate n 0, sr = replicate n 0\<rparr>"
proof -
  let ?P = "soiling_problem (replicate n (Some (1 + c))) (replicate n True) soiling_defaults
              w zero_set"
  let ?v = "\<lparr>s1 = replicate n 1, s2 = seas, s3 = replicate n 0, sr = replicate n 0\<rparr>"
  have flat: "list_all (\<lambda>x. x = 0) (select (vdiff (replicate n (1::real))) zero_set)"
    by (intro list_all_select) (simp add: vdiff_replicate list_all_replicate)
  have feas: "feasible ?P ?v"
    using seas flat
    by (simp add: feasible_def soiling_problem_def Let_def soiling_defaults_def
        vadd_replicate select_replicate_True list_all_replicate)
  have d2: "(vdiff ^^ 2) (replicate n x) = replicate (n - 2) 0" for x :: real
    by (simp add: funpow2 vdiff_replicate)
  have zero: "objective ?P ?v = 0"
    using seas(2)
    by (simp add: soiling_problem_def Let_def soiling_defaults_def d2 norm1_vmul_zero
        list_all_replicate norm2_def cvx_pos_def cvx_neg_def sum_list_replicate)
  have "0 \<le> objective ?P u" if "feasible ?P u" for u
    using that by (intro soiling_objective_nonneg) (simp_all add: soiling_defaults_def)
  with feas zero show ?thesis by (simp add: optimal_def)
qed

lemma soiling_loop_constant:
  assumes "\<And>w zero_set. solve (solver a) (soiling_problem observed index_set a w zero_set) = Solution v"
  shows "soiling_loop solve observed index_set a (Suc k) w zero_set vals = Inr (Some v)"
proof (induction k arbitrary: w zero_set vals)
  case 0
  then show ?case using assms by simp
next
  case (Suc k)
  then show ?case using assms by simp
qed

lemma constant_series_run:
  assumes n: "3 \<le> n"
    and seas: "length seas = max n 367" "take n seas = replicate n c"
      "list_all (\<lambda>x. x = 0) (vsub (drop 365 seas) (take (length seas - 365) seas))"
      "sum_list (take 365 seas) = 0"
      "real n < 0.75 * 365 \<longrightarrow> list_all (\<lambda>x. x = 0) seas"
  shows "soiling_seperation
           (optimal_point \<lparr>s1 = replicate n 1, s2 = seas, s3 = replicate n 0, sr = replicate n 0\<rparr>)
           (replicate n (Some (1 + c))) None soiling_defaults
         = Inr (replicate n 1, replicate n c, replicate n 0, replicate n 0)"
proof -
  let ?v = "\<lparr>s1 = replicate n 1, s2 = seas, s3 = replicate n 0, sr = replicate n 0\<rparr>"
  let ?obs = "replicate n (Some (1 + c))"
  have eff: "effective_index_set ?obs None = Inr (replicate n True)"
    by (simp add: effective_index_set_def isnan_def)
  have sol: "optimal_point ?v (solver soiling_defaults)
               (soiling_problem ?obs (replicate n True) soiling_defaults w zero_set) = Solution ?v"
    for w zero_set
    using constant_point_optimal [OF n seas] by (simp add: optimal_point_def)
  have "iterations soiling_defaults = Suc 4"
    by (simp add: soiling_defaults_def)
  with soiling_loop_constant [of "optimal_point ?v" soiling_defaults ?obs "replicate n True" ?v 4]
    sol
  have "soiling_loop (optimal_point ?v) ?obs (replicate n True) soiling_defaults
          (iterations soiling_defaults) (replicate (n - 2) 1) (replicate (n - 1) False) None
        = Inr (Some ?v)"
    by simp
  with eff n seas(2) show ?thesis
    by (simp add: soiling_seperation_def Let_def)
qed


lemma three_day_run:
  "soiling_seperation (optimal_point three_day_point) (replicate 3 (Some 1)) None soiling_defaults
     = Inr (replicate 3 1, replicate 3 0, replicate 3 0, replicate 3 0)"
  using constant_series_run [of 3 "replicate 367 0" 0]
  by (simp add: three_day_point_def vsub_replicate list_all_replicate sum_list_replicate)

lemma short_year_run:
  "soiling_seperation (optimal_point short_year_point) (replicate 300 (Some 2)) None soiling_defaults
     = Inr (replicate 300 1, replicate 300 1, replicate 300 0, replicate 300 0)"
  using constant_series_run
    [of 300 "replicate 300 1 @ replicate 65 (- (60 / 13)) @ replicate 2 1" 1]
  by (simp add: short_year_point_def vsub_replicate list_all_replicate sum_list_replicate)

lemma full_year_run:
  "soiling_seperation (optimal_point full_year_point) (replicate 366 (Some 1)) None soiling_defaults
     = Inr (replicate 366 1, replicate 366 0, replicate 366 0, replicate 366 0)"
  using constant_series_run [of 366 "replicate 367 0" 0]
  by (simp add: full_year_point_def vsub_replicate list_all_replicate sum_list_replicate)

text \<open>
  The zero sum is a constraint on the first 365 entries of the seasonal variable, which
  has at least 367 entries; the returned component is cut to the length of the series.
  For 300 days of performance index 2 every optimum has soiling 1 and seasonal 1 on the
  300 days, and the returned seasonal component sums to 300.
\<close>

theorem seasonal_component_periodic_counterexample:
  "exact (optimal_point short_year_point)
   \<and> soiling_seperation (optimal_point short_year_point) (replicate 300 (Some 2)) None
        soiling_defaults
       = Inr (replicate 300 1, replicate 300 1, replicate 300 0, replicate 300 0)
   \<and> sum_list (take 365 (replicate 300 (1::real))) = 300"
  using short_year_run exact_optimal_point [of short_year_point]
  by (simp add: sum_list_replicate)

theorem seasonal_component_periodic_witness:
  "sound (optimal_point full_year_point)
   \<and> soiling_seperation (optimal_point full_year_point) (replicate 366 (Some 1)) None
        soiling_defaults
       = Inr (replicate 366 1, replicate 366 0, replicate 366 0, replicate 366 0)
   \<and> length (replicate 366 (0::real)) = length (replicate 366 (Some (1::real)))
   \<and> replicate 366 (0::real) ! (0 + 365) = replicate 366 0 ! 0
   \<and> sum_list (take 365 (replicate 366 (0::real))) = 0"
proof -
  have h1: "sound (optimal_point full_year_point)" by (rule sound_optimal_point)
  note h2 = full_year_run
  note R = seasonal_component_periodic [OF h1 h2]
  from R have len: "length (replicate 366 (0::real)) = length (replicate 366 (Some (1::real)))"
    by blast
  from R have "\<forall>t. t + 365 < length (replicate 366 (Some (1::real))) \<longrightarrow>
      replicate 366 (0::real) ! (t + 365) = replicate 366 0 ! t" by blast
  then have per: "replicate 366 (0::real) ! (0 + 365) = replicate 366 0 ! 0"
    by (elim allE [of _ 0]) simp
  from R have "365 \<le> length (replicate 366 (Some (1::real))) \<longrightarrow>
      sum_list (take 365 (replicate 366 (0::real))) = 0" by blast
  then have zs: "sum_list (take 365 (replicate 366 (0::real))) = 0" by simp
  from h1 h2 len per zs show ?thesis by blast
qed

text \<open>
  \<open>soiling_seperation\<close> has no sign constraint on the soiling component, and its
  objective rewards a large one: for three days of performance index 1 and the default
  arguments the optimum is soiling 1 on every day.
\<close>

theorem soiling_trend_cap_counterexample:
  "exact (optimal_point three_day_point)
   \<and> soiling_seperation (optimal_point three_day_point) [Some 1, Some 1, Some 1] None
        soiling_defaults
       = Inr ([1, 1, 1], [0, 0, 0], [0, 0, 0], [0, 0, 0])
   \<and> \<not> list_all (\<lambda>x. x \<le> 0) [1, 1, 1 :: real]"
  using three_day_run exact_optimal_point [of three_day_point]
  by (simp add: numeral_3_eq_3)


lemma sound_feasible_point: "sound (feasible_point v)"
  by (auto simp: sound_def feasible_point_def split: if_splits)

lemma v2_point_feasible:
  "feasible (v2_problem [Some 1, Some 1, Some 1] [True, True, True] wts v2_defaults w) v2_point"
  by (simp add: feasible_def v2_problem_def Let_def v2_point_def log10_data_def select_def
      vadd_def vsub_def vdiff_def funpow2)

lemma v2_loop_constant:
  assumes "\<And>w. solve ''MOSEK'' (v2_problem observed known wts a w) = Solution v"
  shows "v2_loop solve observed known wts a (Suc k) w vals = Inr (Some v)"
proof (induction k arbitrary: w vals)
  case 0
  then show ?case using assms by simp
next
  case (Suc k)
  then show ?case using assms by simp
qed

lemma v2_point_run:
  "soiling_seperation_algorithm_v2 (feasible_point v2_point) [Some 1, Some 1, Some 1] v2_defaults
     = Inr ([0, 2, 0], [1, - 2, 1], [- 1, 0, - 1], [0, 0, 0])"
proof -
  have sol: "feasible_point v2_point ''MOSEK''
               (v2_problem [Some 1, Some 1, Some 1] [True, True, True] wts v2_defaults w)
             = Solution v2_point" for wts w
    using v2_point_feasible by (simp add: feasible_point_def)
  have "v2_iterations v2_defaults = Suc 4"
    by (simp add: v2_defaults_def)
  with v2_loop_constant [of "feasible_point v2_point" "[Some 1, Some 1, Some 1]"
      "[True, True, True]" "[1, 1, 1]" v2_defaults v2_point 4] sol
  have "v2_loop (feasible_point v2_point) [Some 1, Some 1, Some 1] [True, True, True]
          [1, 1, 1] v2_defaults (v2_iterations v2_defaults) [1] None
        = Inr (Some v2_point)"
    by simp
  moreover have "weights v2_defaults = None" "known_set v2_defaults = None"
    "lmbda1 v2_defaults = 500" "lmbda2 v2_defaults = 1 / 10" "v2_iterations v2_defaults = 5"
    by (simp_all add: v2_defaults_def)
  ultimately show ?thesis
    by (simp add: soiling_seperation_algorithm_v2_def Let_def isnan_def v2_point_def)
qed

theorem soiling_trend_cap_witness:
  "sound (optimal_point three_day_point)
   \<and> soiling_seperation (optimal_point three_day_point) [Some 1, Some 1, Some 1] None
        soiling_defaults
       = Inr ([1, 1, 1], [0, 0, 0], [0, 0, 0], [0, 0, 0])
   \<and> list_all (\<lambda>x. x \<le> soiling_max soiling_defaults) [1, 1, 1]
   \<and> sound (feasible_point v2_point)
   \<and> soiling_seperation_algorithm_v2 (feasible_point v2_point) [Some 1, Some 1, Some 1]
        v2_defaults
       = Inr ([0, 2, 0], [1, - 2, 1], [- 1, 0, - 1], [0, 0, 0])
   \<and> list_all (\<lambda>x. x \<le> 0) [- 1, 0, - 1 :: real]"
proof -
  have h1: "sound (optimal_point three_day_point)" by (rule sound_optimal_point)
  have h2: "soiling_seperation (optimal_point three_day_point) [Some 1, Some 1, Some 1] None
        soiling_defaults = Inr ([1, 1, 1], [0, 0, 0], [0, 0, 0], [0, 0, 0])"
    using three_day_run by (simp add: numeral_3_eq_3)
  have h3: "sound (feasible_point v2_point)" by (rule sound_feasible_point)
  note h4 = v2_point_run
  note T = soiling_trend_cap [of "optimal_point three_day_point" "[Some 1, Some 1, Some 1]" None
      soiling_defaults "[1, 1, 1]" "[0, 0, 0]" "[0, 0, 0]" "[0, 0, 0]"
      "feasible_point v2_point" "[Some 1, Some 1, Some 1]" v2_defaults
      "[0, 2, 0]" "[1, - 2, 1]" "[- 1, 0, - 1]" "[0, 0, 0]"]
  from T h1 h2 have c1: "list_all (\<lambda>x. x \<le> soiling_max soiling_defaults) [1, 1, 1]"
    by blast
  from T h3 h4 have c2: "list_all (\<lambda>x. x \<le> 0) [- 1, 0, - 1 :: real]"
    by blast
  from h1 h2 h3 h4 c1 c2 show ?thesis by blast
qed

section \<open>Soiling: the problems of the loop and the index set\<close>

lemma soiling_loop_solver_cong:
  assumes "\<And>w zero_set. solve (solver a) (soiling_problem observed index_set a w zero_set)
             = solve2 (solver a) (soiling_problem observed index_set a w zero_set)"
  shows "soiling_loop solve observed index_set a k w zero_set vals
           = soiling_loop solve2 observed index_set a k w zero_set vals"
proof (induction k arbitrary: w zero_set vals)
  case 0
  show ?case by simp
next
  case (Suc k)
  show ?case
    by (simp add: assms [symmetric] Suc.IH split: solve_result.splits)
qed

lemma soiling_seperation_solution_at:
  assumes "effective_index_set observed index_set0 = Inr index_set"
    and "soiling_seperation solve observed index_set0 a = Inr (r1, r2, r3, rr)"
  shows "\<exists>w zero_set v.
           solve (solver a) (soiling_problem observed index_set a w zero_set) = Solution v
         \<and> r1 = s1 v \<and> r2 = take (length observed) (s2 v) \<and> r3 = s3 v \<and> rr = sr v"
proof -
  from assms obtain v where
    loop: "soiling_loop solve observed index_set a (iterations a)
             (replicate (length observed - 2) 1) (replicate (length observed - 1) False) None
           = Inr (Some v)" and
    r: "r1 = s1 v" "r2 = take (length observed) (s2 v)" "r3 = s3 v" "rr = sr v"
    by (auto simp: soiling_seperation_def Let_def split: sum.splits if_splits option.splits)
  from soiling_loop_last [OF loop] r show ?thesis by blast
qed

lemma soiling_problem_outside:
  assumes "length observed2 = length observed"
    and "select observed2 index_set = select observed index_set"
  shows "soiling_problem observed2 index_set a w zero_set
           = soiling_problem observed index_set a w zero_set"
  using assms by (simp add: soiling_problem_def Let_def)

lemma gap_point_feasible:
  "feasible (soiling_problem [Some 1, None, Some 1] [True, False, False] soiling_defaults w zero_set)
     gap_point"
proof -
  have flat: "list_all (\<lambda>x. x = 0) (select (vdiff [1, 1, 1 :: real]) zero_set)"
    by (intro list_all_select) (simp add: vdiff_def vsub_def)
  show ?thesis
    using flat
    by (simp add: feasible_def soiling_problem_def Let_def soiling_defaults_def gap_point_def
        select_def vadd_def vsub_replicate list_all_replicate sum_list_replicate)
qed

lemma gap_point_run:
  "soiling_seperation (feasible_point gap_point) [Some 1, None, Some 1] (Some [True, True, False])
     soiling_defaults
     = Inr ([1, 1, 1], [0, 0, 0], [0, 0, 0], [0, 9, 9])"
proof -
  have eff: "effective_index_set [Some 1, None, Some 1] (Some [True, True, False])
               = Inr [True, False, False]"
    by (simp add: effective_index_set_def logical_and_def isnan_def)
  have sol: "feasible_point gap_point (solver soiling_defaults)
               (soiling_problem [Some 1, None, Some 1] [True, False, False] soiling_defaults w zero_set)
             = Solution gap_point" for w zero_set
    using gap_point_feasible by (simp add: feasible_point_def)
  have "iterations soiling_defaults = Suc 4"
    by (simp add: soiling_defaults_def)
  with soiling_loop_constant [of "feasible_point gap_point" soiling_defaults
      "[Some 1, None, Some 1]" "[True, False, False]" gap_point 4] sol
  have "soiling_loop (feasible_point gap_point) [Some 1, None, Some 1] [True, False, False]
          soiling_defaults (iterations soiling_defaults) [1] [False, False] None
        = Inr (Some gap_point)"
    by simp
  with eff show ?thesis
    by (simp add: soiling_seperation_def Let_def gap_point_def numeral_3_eq_3)
qed

text \<open>
  Claim C10. \<open>soiling_seperation\<close> works with the caller's index set intersected with
  the positions where \<open>observed\<close> is not NaN, and with exactly those positions when no
  index set is given. Every problem that the loop hands to the solver is built from that
  intersected set: the result depends on the solver only through its answers on such
  problems, and the returned components are a solution of one of them. The reconstruction
  constraint of such a problem holds exactly when the components add up to the observed
  value at the positions of the set, and the problem does not change when the series is
  changed outside the set, so nothing is imposed at a NaN, even where the caller's index
  set marks the position as valid. For a solver whose values satisfy the problem, the
  returned components add up to the observed value at every position of the set.
\<close>

theorem index_set_excludes_nan:
  assumes eff: "effective_index_set observed index_set0 = Inr index_set"
    and n3: "3 \<le> length observed"
    and dom: "domain (soiling_problem observed index_set a w zero_set) v"
  shows "soiling_seperation solve observed index_set0 a =
           (case soiling_loop solve observed index_set a (iterations a)
                   (replicate (length observed - 2) 1) (replicate (length observed - 1) False) None of
              Inl e \<Rightarrow> Inl e
            | Inr None \<Rightarrow> Inl TypeError
            | Inr (Some u) \<Rightarrow> Inr (s1 u, take (length observed) (s2 u), s3 u, sr u))
         \<and> length index_set = length observed
         \<and> (\<forall>i < length observed. index_set ! i \<longrightarrow> observed ! i \<noteq> None)
         \<and> (index_set0 = None \<longrightarrow> (\<forall>i < length observed. index_set ! i = (observed ! i \<noteq> None)))
         \<and> (\<forall>ix. index_set0 = Some ix \<and> length ix = length observed \<longrightarrow>
               (\<forall>i < length observed. index_set ! i = (ix ! i \<and> observed ! i \<noteq> None)))
         \<and> ((constraints (soiling_problem observed index_set a w zero_set) ! 0) v
              = (\<forall>i < length observed. index_set ! i \<longrightarrow>
                   observed ! i = Some (s1 v ! i + s2 v ! i + s3 v ! i + sr v ! i)))
         \<and> (\<forall>observed2. length observed2 = length observed
                \<and> select observed2 index_set = select observed index_set \<longrightarrow>
              soiling_problem observed2 index_set a w zero_set
                = soiling_problem observed index_set a w zero_set)
         \<and> ((\<forall>w' zero_set'.
                solve (solver a) (soiling_problem observed index_set a w' zero_set')
                  = solve2 (solver a) (soiling_problem observed index_set a w' zero_set'))
              \<longrightarrow> soiling_seperation solve observed index_set0 a
                    = soiling_seperation solve2 observed index_set0 a)
         \<and> (\<forall>r1 r2 r3 rr. soiling_seperation solve observed index_set0 a = Inr (r1, r2, r3, rr)
              \<longrightarrow> (\<exists>w' zero_set' u.
                     solve (solver a) (soiling_problem observed index_set a w' zero_set') = Solution u
                   \<and> r1 = s1 u \<and> r2 = take (length observed) (s2 u) \<and> r3 = s3 u \<and> rr = sr u
                   \<and> (sound solve \<longrightarrow>
                        (\<forall>i < length observed. index_set ! i \<longrightarrow>
                           observed ! i = Some (r1 ! i + r2 ! i + r3 ! i + rr ! i)))))"
proof -
  let ?n = "length observed"
  note facts = effective_index_set_facts [OF eff n3]
  have total: "((constraints (soiling_problem observed index_set a w' zero_set') ! 0) u
              = (\<forall>i < ?n. index_set ! i \<longrightarrow>
                   observed ! i = Some (s1 u ! i + s2 u ! i + s3 u ! i + sr u ! i)))"
    if dom: "domain (soiling_problem observed index_set a w' zero_set') u" for w' zero_set' u
  proof -
    let ?total = "vadd (vadd (vadd (s1 u) (take ?n (s2 u))) (s3 u)) (sr u)"
    from dom have len: "length (s1 u) = ?n" "length (s2 u) = max ?n 367"
        "length (s3 u) = ?n" "length (sr u) = ?n"
      by (simp_all add: soiling_problem_def Let_def)
    have tlen: "length ?total = ?n"
      using len by (simp add: vadd_length)
    have tnth: "?total ! i = s1 u ! i + s2 u ! i + s3 u ! i + sr u ! i" if "i < ?n" for i
      using that len by (simp add: vadd_nth vadd_length)
    have "(constraints (soiling_problem observed index_set a w' zero_set') ! 0) u
            = (select observed index_set = map Some (select ?total index_set))"
      by (simp add: soiling_problem_def Let_def)
    also have "\<dots> = (\<forall>i < length index_set. index_set ! i \<longrightarrow> observed ! i = Some (?total ! i))"
      using facts(1) tlen by (intro select_eq_iff) simp_all
    also have "\<dots> = (\<forall>i < ?n. index_set ! i \<longrightarrow>
                     observed ! i = Some (s1 u ! i + s2 u ! i + s3 u ! i + sr u ! i))"
      using facts(1) tnth by auto
    finally show ?thesis .
  qed
  have run: "soiling_seperation solve observed index_set0 a =
           (case soiling_loop solve observed index_set a (iterations a)
                   (replicate (length observed - 2) 1) (replicate (length observed - 1) False) None of
              Inl e \<Rightarrow> Inl e
            | Inr None \<Rightarrow> Inl TypeError
            | Inr (Some u) \<Rightarrow> Inr (s1 u, take (length observed) (s2 u), s3 u, sr u))"
    for solve
    using eff n3 by (simp add: soiling_seperation_def Let_def)
  have cong: "soiling_seperation solve observed index_set0 a
                = soiling_seperation solve2 observed index_set0 a"
    if "\<forall>w' zero_set'.
                solve (solver a) (soiling_problem observed index_set a w' zero_set')
                  = solve2 (solver a) (soiling_problem observed index_set a w' zero_set')"
    using that unfolding run [of solve] run [of solve2]
    by (simp add: soiling_loop_solver_cong [of solve a observed index_set solve2])
  have sol: "\<exists>w' zero_set' u.
                     solve (solver a) (soiling_problem observed index_set a w' zero_set') = Solution u
                   \<and> r1 = s1 u \<and> r2 = take (length observed) (s2 u) \<and> r3 = s3 u \<and> rr = sr u
                   \<and> (sound solve \<longrightarrow>
                        (\<forall>i < length observed. index_set ! i \<longrightarrow>
                           observed ! i = Some (r1 ! i + r2 ! i + r3 ! i + rr ! i)))"
    if res: "soiling_seperation solve observed index_set0 a = Inr (r1, r2, r3, rr)"
    for r1 r2 r3 rr
  proof -
    from soiling_seperation_solution_at [OF eff res] obtain w' zero_set' u where
      s: "solve (solver a) (soiling_problem observed index_set a w' zero_set') = Solution u" and
      r: "r1 = s1 u" "r2 = take ?n (s2 u)" "r3 = s3 u" "rr = sr u"
      by blast
    have "\<forall>i < ?n. index_set ! i \<longrightarrow> observed ! i = Some (r1 ! i + r2 ! i + r3 ! i + rr ! i)"
      if snd: "sound solve"
    proof -
      from snd s have f: "feasible (soiling_problem observed index_set a w' zero_set') u"
        by (auto simp: sound_def)
      then have d: "domain (soiling_problem observed index_set a w' zero_set') u"
        and c: "(constraints (soiling_problem observed index_set a w' zero_set') ! 0) u"
        by (simp_all add: feasible_def soiling_problem_def Let_def)
      from c total [OF d] r show ?thesis by simp
    qed
    with s r show ?thesis by blast
  qed
  have out: "\<forall>observed2. length observed2 = length observed
                \<and> select observed2 index_set = select observed index_set \<longrightarrow>
              soiling_problem observed2 index_set a w zero_set
                = soiling_problem observed index_set a w zero_set"
    by (intro allI impI) (rule soiling_problem_outside, simp_all)
  from run [of solve] facts total [OF dom] out cong sol show ?thesis by blast
qed

theorem index_set_excludes_nan_witness:
  "effective_index_set [Some 1, None, Some 1] (Some [True, True, False]) = Inr [True, False, False]
   \<and> (3::nat) \<le> length [Some (1::real), None, Some 1]
   \<and> domain (soiling_problem [Some 1, None, Some 1] [True, False, False] soiling_defaults [1]
               [False, False]) gap_point
   \<and> (constraints (soiling_problem [Some 1, None, Some 1] [True, False, False] soiling_defaults [1]
               [False, False]) ! 0) gap_point
   \<and> sound (feasible_point gap_point)
   \<and> soiling_seperation (feasible_point gap_point) [Some 1, None, Some 1]
        (Some [True, True, False]) soiling_defaults
       = Inr ([1, 1, 1], [0, 0, 0], [0, 0, 0], [0, 9, 9])
   \<and> [Some 1, None, Some 1] ! 0 = Some ([1, 1, 1] ! 0 + [0, 0, 0] ! 0 + [0, 0, 0] ! 0 + [0, 9, 9 :: real] ! 0)
   \<and> [Some (1::real), None, Some 1] ! 1 = None
   \<and> soiling_problem [Some 1, Some 7, Some 1] [True, False, False] soiling_defaults [1]
         [False, False]
       = soiling_problem [Some 1, None, Some 1] [True, False, False] soiling_defaults [1]
           [False, False]"
proof -
  let ?obs = "[Some (1::real), None, Some 1]"
  have h1: "effective_index_set ?obs (Some [True, True, False]) = Inr [True, False, False]"
    by (simp add: effective_index_set_def logical_and_def isnan_def)
  have h2: "3 \<le> length ?obs" by simp
  have h3: "domain (soiling_problem ?obs [True, False, False] soiling_defaults [1] [False, False])
              gap_point"
    using gap_point_feasible by (simp add: feasible_def)
  have snd: "sound (feasible_point gap_point)" by (rule sound_feasible_point)
  note run = gap_point_run
  note T = index_set_excludes_nan [OF h1 h2 h3, of "feasible_point gap_point"]
  have "\<forall>i < length ?obs. [True, False, False] ! i \<longrightarrow>
          ?obs ! i = Some (s1 gap_point ! i + s2 gap_point ! i + s3 gap_point ! i + sr gap_point ! i)"
    by (simp add: All_less_Suc numeral_3_eq_3 gap_point_def)
  with T have c0: "(constraints (soiling_problem ?obs [True, False, False] soiling_defaults [1]
               [False, False]) ! 0) gap_point"
    by blast
  from T run snd have "\<forall>i < length ?obs. [True, False, False] ! i \<longrightarrow>
      ?obs ! i = Some ([1, 1, 1] ! i + [0, 0, 0] ! i + [0, 0, 0] ! i + [0, 9, 9 :: real] ! i)"
    by blast
  then have r0: "?obs ! 0 = Some ([1, 1, 1] ! 0 + [0, 0, 0] ! 0 + [0, 0, 0] ! 0 + [0, 9, 9 :: real] ! 0)"
    by (elim allE [of _ 0]) simp
  have nan: "?obs ! 1 = None" by simp
  have "length [Some (1::real), Some 7, Some 1] = length ?obs
      \<and> select [Some (1::real), Some 7, Some 1] [True, False, False]
          = select ?obs [True, False, False]"
    by (simp add: select_def)
  with T have out: "soiling_problem [Some 1, Some 7, Some 1] [True, False, False]
         soiling_defaults [1] [False, False]
       = soiling_problem ?obs [True, False, False] soiling_defaults [1] [False, False]"
    by blast
  from h1 h2 h3 c0 snd run r0 nan out show ?thesis by (intro conjI)
qed

section \<open>Soiling: the reweighting of the first variant\<close>

text \<open>
  In \<open>soiling_seperation\<close> the weights of the next pass come from the second
  difference of \<open>s1\<close>, the variable of the weighted L1 term.
\<close>

lemma soiling_reweight_step:
  assumes "solve (solver a) (soiling_problem observed index_set a w zero_set) = Solution v"
  shows "soiling_loop solve observed index_set a (Suc k) w zero_set vals
           = soiling_loop solve observed index_set a k
               (map (\<lambda>d. 1 / (0.01 + 100 * \<bar>d\<bar>)) ((vdiff ^^ 2) (s1 v))) (flat_set v) (Some v)"
    and "objective (soiling_problem observed index_set a w' zero_set') x
           = sum_list (map (\<lambda>r. tau a * cvx_pos r + (1 - tau a) * cvx_neg r) (sr x))
             + c3 a * norm2 ((vdiff ^^ 2) (take (length observed) (s2 x)))
             + c1 a * norm1 (vmul w' ((vdiff ^^ 2) (s1 x)))
             + c2 a * sum_list (map (\<lambda>x. 1 - x) (s1 x))"
  using assms by (simp_all add: reweight_def soiling_problem_def Let_def)

section \<open>Soiling: the reweighting of the second variant\<close>

lemma log10_tenth: "log 10 (1 / 10) = - 1"
  by (simp add: log_divide)

lemma diff2_three: "(vdiff ^^ 2) [x0, x1, x2] = [x2 - 2 * x1 + x0]"
  by (simp add: funpow2 vdiff_def vsub_def)

lemma length_three:
  assumes "length xs = 3"
  obtains x0 x1 x2 where "xs = [x0, x1, x2]"
proof -
  from assms obtain x0 ys where 1: "xs = x0 # ys" "length ys = 2"
    by (cases xs) auto
  from 1(2) obtain x1 zs where 2: "ys = x1 # zs" "length zs = 1"
    by (cases ys) auto
  from 2(2) obtain x2 where 3: "zs = [x2]"
    by (cases zs) auto
  from 1 2 3 that show thesis by simp
qed

lemma dip_data:
  "log10_data [Some 1, Some (1 / 10), Some 1] [True, True, True] = [Some 0, Some (- 1), Some 0]"
  by (simp add: log10_data_def log10_tenth)

lemma v2_objective_three:
  "objective (v2_problem observed known [1, 1, 1] v2_defaults [w])
     \<lparr>v2_s1 = [a0, a1, a2], v2_s2 = [b0, b1, b2], v2_s3 = [e0, e1, e2], v2_s4 = g\<rparr>
   = sqrt (a0 * a0 + a1 * a1 + a2 * a2)
     + 500 * ((b2 - 2 * b1 + b0) * (b2 - 2 * b1 + b0))
     + (1 / 10) * \<bar>w * (e2 - 2 * e1 + e0)\<bar>
     + (1 / 100000) * (\<bar>e0\<bar> + \<bar>e1\<bar> + \<bar>e2\<bar>)"
  by (simp add: v2_problem_def Let_def v2_defaults_def diff2_three norm1_def norm2_def vmul_def
      add.assoc)

lemma v2_feasible_three:
  "feasible (v2_problem [Some 1, Some (1 / 10), Some 1] [True, True, True] wts v2_defaults w)
     \<lparr>v2_s1 = [a0, a1, a2], v2_s2 = [b0, b1, b2], v2_s3 = [e0, e1, e2], v2_s4 = [g0, g1, g2]\<rparr>
   \<longleftrightarrow> a0 + b0 + e0 + g0 = 0 \<and> a1 + b1 + e1 + g1 = - 1 \<and> a2 + b2 + e2 + g2 = 0
       \<and> b0 + b1 + b2 = 0 \<and> e0 \<le> 0 \<and> e1 \<le> 0 \<and> e2 \<le> 0
       \<and> g2 - 2 * g1 + g0 = 0 \<and> g0 = 0"
  by (auto simp: feasible_def v2_problem_def Let_def dip_data select_def vadd_def vsub_def diff2_three)

lemma dip_point_feasible:
  "feasible (v2_problem [Some 1, Some (1 / 10), Some 1] [True, True, True] wts v2_defaults w)
     dip_point"
  unfolding dip_point_def v2_feasible_three by simp

lemma dip_point_objective:
  "objective (v2_problem [Some 1, Some (1 / 10), Some 1] [True, True, True] [1, 1, 1]
       v2_defaults [1]) dip_point
   = 16000399959999 / 80000000000000"
  unfolding dip_point_def v2_objective_three by simp


lemma abs_second_difference_le:
  fixes a0 a1 a2 :: real
  shows "\<bar>a2 - 2 * a1 + a0\<bar> / 3 \<le> sqrt (a0 * a0 + a1 * a1 + a2 * a2)"
proof (rule real_le_rsqrt)
  define S where "S = a0 * a0 + a1 * a1 + a2 * a2"
  define P where "P = (a2 - 2 * a1 + a0)\<^sup>2"
  have "6 * S - P = (2 * a0 + a1)\<^sup>2 + (a0 - a2)\<^sup>2 + (a1 + 2 * a2)\<^sup>2"
    unfolding S_def P_def by (simp add: power2_eq_square algebra_simps)
  moreover have "0 \<le> (2 * a0 + a1)\<^sup>2" "0 \<le> (a0 - a2)\<^sup>2" "0 \<le> (a1 + 2 * a2)\<^sup>2"
    by simp_all
  ultimately have 1: "P \<le> 6 * S"
    by linarith
  have 2: "0 \<le> S"
    unfolding S_def by simp
  have 3: "(\<bar>a2 - 2 * a1 + a0\<bar> / 3)\<^sup>2 = P / 9"
    unfolding P_def by (simp add: power2_eq_square)
  from 1 2 have "P / 9 \<le> S"
    by simp
  then show "(\<bar>a2 - 2 * a1 + a0\<bar> / 3)\<^sup>2 \<le> a0 * a0 + a1 * a1 + a2 * a2"
    unfolding 3 S_def .
qed

lemma v2_dip_bound:
  fixes a0 a1 a2 b0 b1 b2 e0 e1 e2 g0 g1 g2 :: real
  assumes tot: "a0 + b0 + e0 + g0 = 0" "a1 + b1 + e1 + g1 = - 1" "a2 + b2 + e2 + g2 = 0"
    and lin: "g2 - 2 * g1 + g0 = 0"
  shows "sqrt (a0 * a0 + a1 * a1 + a2 * a2) / 2
         + 500 * ((b2 - 2 * b1 + b0 - 20001 / 200000000) * (b2 - 2 * b1 + b0 - 20001 / 200000000))
         + 16000399959999 / 80000000000000
       \<le> sqrt (a0 * a0 + a1 * a1 + a2 * a2)
         + 500 * ((b2 - 2 * b1 + b0) * (b2 - 2 * b1 + b0))
         + (1 / 10) * \<bar>1 * (e2 - 2 * e1 + e0)\<bar>
         + (1 / 100000) * (\<bar>e0\<bar> + \<bar>e1\<bar> + \<bar>e2\<bar>)"
proof -
  define r where "r = sqrt (a0 * a0 + a1 * a1 + a2 * a2)"
  define X1 where "X1 = a2 - 2 * a1 + a0"
  define X2 where "X2 = b2 - 2 * b1 + b0"
  define X3 where "X3 = e2 - 2 * e1 + e0"
  define q where "q = X2 * X2"
  have sum: "X1 + X2 + X3 = 2"
    using tot lin by (simp add: X1_def X2_def X3_def)
  have r: "\<bar>X1\<bar> / 3 \<le> r"
    unfolding r_def X1_def by (rule abs_second_difference_le)
  have e: "\<bar>X3\<bar> \<le> 2 * (\<bar>e0\<bar> + \<bar>e1\<bar> + \<bar>e2\<bar>)"
    unfolding X3_def by (simp add: abs_real_def)
  have sq: "500 * ((X2 - 20001 / 200000000) * (X2 - 20001 / 200000000))
              = 500 * q - (20001 / 200000) * X2 + 400040001 / 80000000000000"
    unfolding q_def by (simp add: algebra_simps)
  have "r / 2 + (500 * q - (20001 / 200000) * X2 + 400040001 / 80000000000000)
          + 16000399959999 / 80000000000000
        \<le> r + 500 * q + (1 / 10) * \<bar>X3\<bar> + (1 / 100000) * (\<bar>e0\<bar> + \<bar>e1\<bar> + \<bar>e2\<bar>)"
    using sum r e by linarith
  then show ?thesis
    unfolding sq [symmetric] unfolding r_def X2_def X3_def q_def by simp
qed

lemma dip_point_optimal:
  "optimal (v2_problem [Some 1, Some (1 / 10), Some 1] [True, True, True] [1, 1, 1] v2_defaults [1])
     dip_point"
  unfolding optimal_def
proof (intro conjI allI impI)
  let ?P = "v2_problem [Some 1, Some (1 / 10), Some 1] [True, True, True] [1, 1, 1] v2_defaults [1]"
  show "feasible ?P dip_point" by (rule dip_point_feasible)
  fix u assume f: "feasible ?P u"
  then have len: "length (v2_s1 u) = 3" "length (v2_s2 u) = 3" "length (v2_s3 u) = 3"
    "length (v2_s4 u) = 3"
    by (simp_all add: feasible_def v2_problem_def Let_def)
  from len(1) obtain a0 a1 a2 where a: "v2_s1 u = [a0, a1, a2]" by (rule length_three)
  from len(2) obtain b0 b1 b2 where b: "v2_s2 u = [b0, b1, b2]" by (rule length_three)
  from len(3) obtain e0 e1 e2 where e: "v2_s3 u = [e0, e1, e2]" by (rule length_three)
  from len(4) obtain g0 g1 g2 where g: "v2_s4 u = [g0, g1, g2]" by (rule length_three)
  have u: "u = \<lparr>v2_s1 = [a0, a1, a2], v2_s2 = [b0, b1, b2], v2_s3 = [e0, e1, e2],
                 v2_s4 = [g0, g1, g2]\<rparr>"
    using a b e g by (cases u) simp
  from f have c: "a0 + b0 + e0 + g0 = 0" "a1 + b1 + e1 + g1 = - 1" "a2 + b2 + e2 + g2 = 0"
    "g2 - 2 * g1 + g0 = 0"
    unfolding u v2_feasible_three by simp_all
  have "0 \<le> sqrt (a0 * a0 + a1 * a1 + a2 * a2) / 2" by simp
  moreover have "0 \<le> 500 * ((b2 - 2 * b1 + b0 - 20001 / 200000000)
                            * (b2 - 2 * b1 + b0 - 20001 / 200000000))" by simp
  ultimately show "objective ?P dip_point \<le> objective ?P u"
    unfolding dip_point_objective unfolding u v2_objective_three
    using v2_dip_bound [OF c] by linarith
qed

lemma v2_optimum_unique:
  assumes "optimal (v2_problem [Some 1, Some (1 / 10), Some 1] [True, True, True] [1, 1, 1]
             v2_defaults [1]) u"
  shows "v2_s1 u = [0, 0, 0]" and "(vdiff ^^ 2) (v2_s3 u) = [399979999 / 200000000]"
proof -
  let ?P = "v2_problem [Some 1, Some (1 / 10), Some 1] [True, True, True] [1, 1, 1] v2_defaults [1]"
  from assms have f: "feasible ?P u" and le: "objective ?P u \<le> objective ?P dip_point"
    using dip_point_feasible by (auto simp: optimal_def)
  from f have len: "length (v2_s1 u) = 3" "length (v2_s2 u) = 3" "length (v2_s3 u) = 3"
    "length (v2_s4 u) = 3"
    by (simp_all add: feasible_def v2_problem_def Let_def)
  from len(1) obtain a0 a1 a2 where a: "v2_s1 u = [a0, a1, a2]" by (rule length_three)
  from len(2) obtain b0 b1 b2 where b: "v2_s2 u = [b0, b1, b2]" by (rule length_three)
  from len(3) obtain e0 e1 e2 where e: "v2_s3 u = [e0, e1, e2]" by (rule length_three)
  from len(4) obtain g0 g1 g2 where g: "v2_s4 u = [g0, g1, g2]" by (rule length_three)
  have u: "u = \<lparr>v2_s1 = [a0, a1, a2], v2_s2 = [b0, b1, b2], v2_s3 = [e0, e1, e2],
                 v2_s4 = [g0, g1, g2]\<rparr>"
    using a b e g by (cases u) simp
  from f have c: "a0 + b0 + e0 + g0 = 0" "a1 + b1 + e1 + g1 = - 1" "a2 + b2 + e2 + g2 = 0"
    "g2 - 2 * g1 + g0 = 0"
    unfolding u v2_feasible_three by simp_all
  define r where "r = sqrt (a0 * a0 + a1 * a1 + a2 * a2)"
  define d where "d = b2 - 2 * b1 + b0 - 20001 / 200000000"
  have r0: "0 \<le> r" unfolding r_def by simp
  have d0: "0 \<le> d * d" by simp
  from le v2_dip_bound [OF c] have "r / 2 + 500 * (d * d) \<le> 0"
    unfolding dip_point_objective unfolding u v2_objective_three r_def d_def by linarith
  with r0 d0 have "r = 0" "d * d = 0" by linarith+
  then have S: "a0 * a0 + a1 * a1 + a2 * a2 = 0" and d: "d = 0"
    by (simp_all add: r_def)
  have "0 \<le> a0 * a0" "0 \<le> a1 * a1" "0 \<le> a2 * a2" by simp_all
  with S have "a0 * a0 = 0" "a1 * a1 = 0" "a2 * a2 = 0" by linarith+
  then have z: "a0 = 0" "a1 = 0" "a2 = 0" by simp_all
  with a show "v2_s1 u = [0, 0, 0]" by simp
  from c z d have "e2 - 2 * e1 + e0 = 399979999 / 200000000"
    unfolding d_def by linarith
  then show "(vdiff ^^ 2) (v2_s3 u) = [399979999 / 200000000]"
    by (simp add: e diff2_three)
qed


lemma v2_reweight_step:
  assumes "solve ''MOSEK'' (v2_problem observed known wts a w) = Solution u"
  shows "v2_loop solve observed known wts a (Suc k) w vals
           = v2_loop solve observed known wts a k
               (map (\<lambda>d. 1 / (1 / 100000 + \<bar>d\<bar>)) ((vdiff ^^ 2) (v2_s1 u))) (Some u)"
  using assms by (simp add: v2_reweight_def Let_def)

lemma v2_objective_terms:
  "objective (v2_problem observed known wts a w) x
     = norm2 (vmul (v2_s1 x) wts)
       + lmbda1 a * sum_list (map (\<lambda>x. x * x) ((vdiff ^^ 2) (v2_s2 x)))
       + lmbda2 a * norm1 (vmul w ((vdiff ^^ 2) (v2_s3 x)))
       + lmbda3 a * norm1 (v2_s3 x)"
  by (simp add: v2_problem_def Let_def)

lemma v2_dip_entry:
  "soiling_seperation_algorithm_v2 solve [Some 1, Some (1 / 10), Some 1] v2_defaults
     = (case v2_loop solve [Some 1, Some (1 / 10), Some 1] [True, True, True] [1, 1, 1]
               v2_defaults 5 [1] None of
          Inl e \<Rightarrow> Inl e
        | Inr None \<Rightarrow> Inl NameError
        | Inr (Some u) \<Rightarrow> Inr (v2_s1 u, v2_s2 u, v2_s3 u, v2_s4 u))"
proof -
  have "weights v2_defaults = None" "known_set v2_defaults = None"
    "lmbda1 v2_defaults = 500" "lmbda2 v2_defaults = 1 / 10" "v2_iterations v2_defaults = 5"
    by (simp_all add: v2_defaults_def)
  moreover have "map (\<lambda>x. \<not> isnan x) [Some 1, Some (1 / 10), Some (1::real)] = [True, True, True]"
    by (simp only: isnan_def list.map option.distinct not_False_eq_True)
  ultimately show ?thesis
    by (simp add: soiling_seperation_algorithm_v2_def Let_def numeral_3_eq_3
        del: v2_loop.simps list.map)
qed

text \<open>
  Claim C3 on \<open>soiling_seperation_algorithm_v2\<close>. The weighted L1 term of the
  objective is on the second difference of \<open>s3\<close>, the soiling component, but after
  every solve the weights of the next pass are computed from the second difference of
  \<open>s1\<close>, the error component. On three days of index 1, 0.1 and 1 with the default
  arguments, every minimiser of the first pass has no error and the second difference
  399979999 / 200000000 in the soiling component, so with any solver that returns a
  minimiser the second pass runs with the weight 1 / (1e-5 + 0) = 100000, where the
  soiling component would give 1 / (1e-5 + 399979999 / 200000000).
\<close>

theorem v2_reweights_from_error_component:
  assumes ex: "exact solve"
    and sol: "solve ''MOSEK'' (v2_problem [Some 1, Some (1 / 10), Some 1] [True, True, True]
                [1, 1, 1] v2_defaults [1]) = Solution v"
  shows "(\<forall>observed2 known2 wts2 a2 w2 vals n u.
            solve ''MOSEK'' (v2_problem observed2 known2 wts2 a2 w2) = Solution u \<longrightarrow>
            v2_loop solve observed2 known2 wts2 a2 (Suc n) w2 vals
              = v2_loop solve observed2 known2 wts2 a2 n
                  (map (\<lambda>d. 1 / (1 / 100000 + \<bar>d\<bar>)) ((vdiff ^^ 2) (v2_s1 u))) (Some u))
       \<and> objective (v2_problem observed known wts a w) x
           = norm2 (vmul (v2_s1 x) wts)
             + lmbda1 a * sum_list (map (\<lambda>x. x * x) ((vdiff ^^ 2) (v2_s2 x)))
             + lmbda2 a * norm1 (vmul w ((vdiff ^^ 2) (v2_s3 x)))
             + lmbda3 a * norm1 (v2_s3 x)
       \<and> (vdiff ^^ 2) (v2_s1 v) = [0]
       \<and> (vdiff ^^ 2) (v2_s3 v) = [399979999 / 200000000]
       \<and> v2_loop solve [Some 1, Some (1 / 10), Some 1] [True, True, True] [1, 1, 1] v2_defaults
             (Suc (Suc k)) [1] None
           = v2_loop solve [Some 1, Some (1 / 10), Some 1] [True, True, True] [1, 1, 1] v2_defaults
               (Suc k) [100000] (Some v)
       \<and> map (\<lambda>d. 1 / (1 / 100000 + \<bar>d\<bar>)) ((vdiff ^^ 2) (v2_s3 v))
           = [200000000 / 399981999]
       \<and> soiling_seperation_algorithm_v2 solve [Some 1, Some (1 / 10), Some 1] v2_defaults
           = (case v2_loop solve [Some 1, Some (1 / 10), Some 1] [True, True, True] [1, 1, 1]
                     v2_defaults 4 [100000] (Some v) of
                Inl e \<Rightarrow> Inl e
              | Inr None \<Rightarrow> Inl NameError
              | Inr (Some u) \<Rightarrow> Inr (v2_s1 u, v2_s2 u, v2_s3 u, v2_s4 u))"
proof -
  let ?obs = "[Some 1, Some (1 / 10), Some (1::real)]"
  let ?P = "v2_problem ?obs [True, True, True] [1, 1, 1] v2_defaults [1]"
  from ex sol have opt: "optimal ?P v"
    by (simp add: exact_def)
  note uniq = v2_optimum_unique [OF opt]
  have d1: "(vdiff ^^ 2) (v2_s1 v) = [0]"
    by (simp add: uniq(1) diff2_three)
  have gen: "\<forall>observed2 known2 wts2 a2 w2 vals n u.
            solve ''MOSEK'' (v2_problem observed2 known2 wts2 a2 w2) = Solution u \<longrightarrow>
            v2_loop solve observed2 known2 wts2 a2 (Suc n) w2 vals
              = v2_loop solve observed2 known2 wts2 a2 n
                  (map (\<lambda>d. 1 / (1 / 100000 + \<bar>d\<bar>)) ((vdiff ^^ 2) (v2_s1 u))) (Some u)"
    by (intro allI impI) (rule v2_reweight_step)
  have step: "v2_loop solve ?obs [True, True, True] [1, 1, 1] v2_defaults (Suc m) [1] None
           = v2_loop solve ?obs [True, True, True] [1, 1, 1] v2_defaults m [100000] (Some v)" for m
    unfolding v2_reweight_step [of solve ?obs "[True, True, True]" "[1, 1, 1]" v2_defaults "[1]" v,
        OF sol] d1 by simp
  have s3w: "map (\<lambda>d. 1 / (1 / 100000 + \<bar>d\<bar>)) ((vdiff ^^ 2) (v2_s3 v))
           = [200000000 / 399981999]"
    unfolding uniq(2) by simp
  have "(5::nat) = Suc 4" by simp
  then have entry: "soiling_seperation_algorithm_v2 solve ?obs v2_defaults
           = (case v2_loop solve ?obs [True, True, True] [1, 1, 1] v2_defaults 4 [100000] (Some v) of
                Inl e \<Rightarrow> Inl e
              | Inr None \<Rightarrow> Inl NameError
              | Inr (Some u) \<Rightarrow> Inr (v2_s1 u, v2_s2 u, v2_s3 u, v2_s4 u))"
    unfolding v2_dip_entry using step [of 4] by (simp only:)
  from gen v2_objective_terms d1 uniq(2) step [of "Suc k"] s3w entry show ?thesis
    by (intro conjI)
qed

theorem v2_reweights_from_error_component_witness:
  "exact (optimal_point dip_point)
   \<and> optimal_point dip_point ''MOSEK''
       (v2_problem [Some 1, Some (1 / 10), Some 1] [True, True, True] [1, 1, 1] v2_defaults [1])
       = Solution dip_point
   \<and> (vdiff ^^ 2) (v2_s1 dip_point) = [0]
   \<and> (vdiff ^^ 2) (v2_s3 dip_point) = [399979999 / 200000000]
   \<and> v2_loop (optimal_point dip_point) [Some 1, Some (1 / 10), Some 1] [True, True, True]
         [1, 1, 1] v2_defaults (Suc (Suc 0)) [1] None
       = v2_loop (optimal_point dip_point) [Some 1, Some (1 / 10), Some 1] [True, True, True]
           [1, 1, 1] v2_defaults (Suc 0) [100000] (Some dip_point)
   \<and> map (\<lambda>d. 1 / (1 / 100000 + \<bar>d\<bar>)) ((vdiff ^^ 2) (v2_s3 dip_point))
       = [200000000 / 399981999]"
proof -
  have h1: "exact (optimal_point dip_point)" by (rule exact_optimal_point)
  have h2: "optimal_point dip_point ''MOSEK''
       (v2_problem [Some 1, Some (1 / 10), Some 1] [True, True, True] [1, 1, 1] v2_defaults [1])
       = Solution dip_point"
    using dip_point_optimal by (simp add: optimal_point_def)
  note T = v2_reweights_from_error_component [OF h1 h2, where k = 0]
  from T have c1: "(vdiff ^^ 2) (v2_s1 dip_point) = [0]" by blast
  from T have c2: "(vdiff ^^ 2) (v2_s3 dip_point) = [399979999 / 200000000]" by blast
  from T have c3: "v2_loop (optimal_point dip_point) [Some 1, Some (1 / 10), Some 1]
         [True, True, True] [1, 1, 1] v2_defaults (Suc (Suc 0)) [1] None
       = v2_loop (optimal_point dip_point) [Some 1, Some (1 / 10), Some 1] [True, True, True]
           [1, 1, 1] v2_defaults (Suc 0) [100000] (Some dip_point)" by blast
  from T have c4: "map (\<lambda>d. 1 / (1 / 100000 + \<bar>d\<bar>)) ((vdiff ^^ 2) (v2_s3 dip_point))
       = [200000000 / 399981999]" by blast
  from h1 h2 c1 c2 c3 c4 show ?thesis by (intro conjI)
qed

end
